theory Spec2Isabelle
  imports Main
begin

section \<open>JavaScript values\<close>

text \<open>
  The values that flow through the query engine of \<^verbatim>\<open>modules/@themost/data/queryable.js\<close>:
  result rows are objects (their own enumerable properties, in key order), results are
  arrays of rows, and the builder's flags hold arbitrary values. Numbers are the integers.
\<close>

datatype jsval =
    JUndefined
  | JNull
  | JBool bool
  | JNum int
  | JStr string
  | JArr "jsval list"
  | JObj "(string \<times> jsval) list"

text \<open>An error raised by \<^verbatim>\<open>throw\<close> or handed to a callback as its first argument.\<close>

datatype error =
    Error string
  | TypeError string
  | DataError string string

text \<open>Truthiness, as \<^verbatim>\<open>if (x)\<close> and \<^verbatim>\<open>x || y\<close> test it.\<close>

fun truthy :: "jsval \<Rightarrow> bool" where
  "truthy JUndefined = False"
| "truthy JNull = False"
| "truthy (JBool b) = b"
| "truthy (JNum n) = (n \<noteq> 0)"
| "truthy (JStr s) = (s \<noteq> [])"
| "truthy (JArr xs) = True"
| "truthy (JObj kvs) = True"

text \<open>lodash \<^verbatim>\<open>_.isNil\<close>.\<close>

fun isNil :: "jsval \<Rightarrow> bool" where
  "isNil JUndefined = True"
| "isNil JNull = True"
| "isNil v = False"

text \<open>Decimal digits of an array index, for the keys of arrays and strings.\<close>

fun string_of_nat :: "nat \<Rightarrow> string" where
  "string_of_nat n =
     (if n < 10 then [char_of (48 + n)]
      else string_of_nat (n div 10) @ [char_of (48 + n mod 10)])"

declare string_of_nat.simps [simp del]

text \<open>
  The own enumerable properties of a value, in the order \<^verbatim>\<open>Object.keys\<close> lists them:
  the entries of an object, the indexed elements of an array, the indexed characters of
  a string; a number or a boolean has none. (Inherited and non-enumerable properties,
  such as \<^verbatim>\<open>length\<close>, are outside the model.)
\<close>

fun own_props :: "jsval \<Rightarrow> (string \<times> jsval) list" where
  "own_props (JObj kvs) = kvs"
| "own_props (JArr xs) = zip (map string_of_nat [0..<length xs]) xs"
| "own_props (JStr s) = zip (map string_of_nat [0..<length s]) (map (\<lambda>c. JStr [c]) s)"
| "own_props v = []"

text \<open>\<^verbatim>\<open>Object.keys(x)[0]\<close>: the first key, \<^verbatim>\<open>undefined\<close> (None) when there is none.\<close>

definition first_key :: "jsval \<Rightarrow> string option" where
  "first_key x = (case own_props x of [] \<Rightarrow> None | (k, v) # rest \<Rightarrow> Some k)"

text \<open>\<^verbatim>\<open>x[key]\<close>: a property read; a missing property reads as \<^verbatim>\<open>undefined\<close>.\<close>

definition get_prop :: "jsval \<Rightarrow> string \<Rightarrow> jsval" where
  "get_prop x k = (case map_of (own_props x) k of None \<Rightarrow> JUndefined | Some v \<Rightarrow> v)"

section \<open>Query expressions\<close>

text \<open>
  The query expression a DataQueryable owns is built with the most-query package. The
  engine reads and writes its \<^verbatim>\<open>$select\<close>, \<^verbatim>\<open>$where\<close>, \<^verbatim>\<open>$prepared\<close>,
  \<^verbatim>\<open>$order\<close>, \<^verbatim>\<open>$group\<close>, \<^verbatim>\<open>$skip\<close>, \<^verbatim>\<open>$take\<close> and \<^verbatim>\<open>$expand\<close> properties;
  an absent property (\<^verbatim>\<open>undefined\<close>, or removed with \<^verbatim>\<open>delete\<close>) is None.
\<close>

record QueryField =
  qf_name :: "string option"
  qf_from :: "string option"
  qf_as :: "string option"
  qf_aggr :: "string option"

text \<open>\<^verbatim>\<open>qry.entity(name).as(alias).left()\<close>: a join entity with its alias and join kind.\<close>

record QueryEntity =
  e_name :: "string option"
  e_as :: "string option"
  e_join :: "string option"
  e_fields :: "QueryField list"

text \<open>A join: the entity and the equality \<^verbatim>\<open>$with\<close> joins it on.\<close>

record JoinExpr =
  j_entity :: QueryEntity
  j_with :: "QueryField \<times> QueryField"

text \<open>
  \<^verbatim>\<open>query.$expand\<close> is \<^verbatim>\<open>undefined\<close>, a single join object, or an array of joins;
  \<^verbatim>\<open>resolveNestedAttribute\<close> tells the three apart.
\<close>

datatype expandv =
    ExpandUndefined
  | ExpandOne JoinExpr
  | ExpandMany "JoinExpr list"

datatype qexpr =
    QCompare QueryField string jsval
  | QAnd qexpr qexpr
  | QOr qexpr qexpr

record QueryExpression =
  q_select :: "QueryField list option"
  q_where :: "qexpr option"
  q_prepared :: "qexpr option"
  q_left :: "QueryField option"
  q_order :: "(QueryField \<times> bool) list option"
  q_group :: "QueryField list option"
  q_skip :: "int option"
  q_take :: "int option"
  q_expand :: expandv

text \<open>The joins of a query, whichever of the three shapes \<^verbatim>\<open>$expand\<close> has.\<close>

fun joins :: "expandv \<Rightarrow> JoinExpr list" where
  "joins ExpandUndefined = []"
| "joins (ExpandOne j) = [j]"
| "joins (ExpandMany js) = js"

text \<open>
  \<^verbatim>\<open>QueryExpression.fields()\<close>: the projected fields of the query's entity followed by
  the fields of its join entities.
\<close>

definition query_fields :: "QueryExpression \<Rightarrow> QueryField list" where
  "query_fields qe =
     (case q_select qe of
        None \<Rightarrow> []
      | Some fs \<Rightarrow> fs @ concat (map (\<lambda>j. e_fields (j_entity j)) (joins (q_expand qe))))"

text \<open>\<^verbatim>\<open>QueryExpression.hasFields()\<close>.\<close>

definition hasFields :: "QueryExpression \<Rightarrow> bool" where
  "hasFields qe =
     (case q_select qe of
        None \<Rightarrow> False
      | Some fs \<Rightarrow> fs \<noteq> [] \<or> list_ex (\<lambda>j. e_fields (j_entity j) \<noteq> []) (joins (q_expand qe)))"

section \<open>Models, fields and association mappings\<close>

record DataAssociationMapping =
  associationType :: "string option"
  associationAdapter :: "string option"
  parentModel :: "string option"
  parentField :: "string option"
  childModel :: "string option"
  childField :: "string option"
  refersTo :: "string option"
  cascade :: "string option"
  mapping_select :: "string list option"
  mapping_options :: "(string \<times> jsval) list option"

text \<open>
  A field of a model, as the \<^verbatim>\<open>attributes\<close> getter of DataModel hands it out:
  \<^verbatim>\<open>model\<close> is the name of the model that defines the field, \<^verbatim>\<open>many\<close> may be left
  undefined.
\<close>

record DataField =
  f_name :: string
  f_property :: "string option"
  f_type :: string
  f_many :: "bool option"
  f_mapping :: "DataAssociationMapping option"
  f_model :: string
  f_primary :: bool
  f_expandable :: bool
  f_hidden :: bool

text \<open>
  The event object of \<^verbatim>\<open>before.execute\<close> and \<^verbatim>\<open>after.execute\<close>: a listener may
  change the query and may set \<^verbatim>\<open>result\<close>, which is \<^verbatim>\<open>undefined\<close> until then. A
  listener returns the event as it leaves it, or the error it hands to its callback.
\<close>

record ExecuteEvent =
  ev_query :: QueryExpression
  ev_result :: jsval

type_synonym listener = "ExecuteEvent \<Rightarrow> error + ExecuteEvent"

record DataModelView =
  view_name :: string
  view_fields :: "(string \<times> string option) list"

text \<open>
  A model. \<^verbatim>\<open>attributes\<close> is the list the getter computes (own and inherited fields),
  \<^verbatim>\<open>fields\<close> the model's own fields, \<^verbatim>\<open>superTypes\<close> the result of
  \<^verbatim>\<open>getSuperTypes()\<close>; \<^verbatim>\<open>configured\<close> says that the configuration holds the model's
  definition and \<^verbatim>\<open>mappings\<close> is its cache \<^verbatim>\<open>mappings_\<close>; \<^verbatim>\<open>dataviews\<close> looks a
  named view up; the two listener lists are the model's \<^verbatim>\<open>before.execute\<close> and
  \<^verbatim>\<open>after.execute\<close> listeners in registration order.
\<close>

record DataModel =
  m_name :: string
  m_view :: "string option"
  m_alias :: "string option"
  m_fields :: "DataField list"
  m_attributes :: "DataField list"
  m_superTypes :: "string list"
  m_configured :: bool
  m_mappings :: "(string \<times> DataAssociationMapping) list"
  m_dataviews :: "string \<Rightarrow> DataModelView option"
  m_before_execute :: "listener list"
  m_after_execute :: "listener list"

text \<open>The four fetches of the mapping extensions that attach associated objects to rows.\<close>

datatype extension = GetAssociatedChilds | GetParents | GetChilds | GetAssociatedParents

text \<open>
  The options of an expansion: a plain object, or a nested DataQueryable
  (\<^verbatim>\<open>toExpand\<close>), of which only the fact that it is one is kept.
\<close>

datatype expand_options =
    OptionsObject "(string \<times> jsval) list"
  | OptionsQueryable

text \<open>
  The collaborators of the engine: the models of the context, the primitive data types
  of the configuration, the adapter's \<^verbatim>\<open>execute\<close>, the migration of a model (its error,
  if any), the filter a view merges into the query, and the mapping extensions, which
  take the mapping, the options, whether the query is silent, and the rows.
\<close>

record DataContext =
  c_model :: "string \<Rightarrow> DataModel option"
  c_dataTypes :: "string \<Rightarrow> bool"
  c_execute :: "QueryExpression \<Rightarrow> error + jsval"
  c_migrate :: "string \<Rightarrow> error option"
  c_filter :: "string \<Rightarrow> DataModelView \<Rightarrow> error + QueryExpression"
  c_extend :: "extension \<Rightarrow> DataAssociationMapping \<Rightarrow> expand_options \<Rightarrow> jsval \<Rightarrow> jsval
                \<Rightarrow> error + jsval"

text \<open>\<^verbatim>\<open>DataModel.viewAdapter\<close>: the view, or the name followed by \<^verbatim>\<open>Data\<close>.\<close>

definition viewAdapter :: "DataModel \<Rightarrow> string" where
  "viewAdapter self = (case m_view self of None \<Rightarrow> m_name self @ ''Data'' | Some v \<Rightarrow> v)"

text \<open>\<^verbatim>\<open>DataModel.field(name)\<close>: the first attribute with that name or that property.\<close>

definition field :: "DataModel \<Rightarrow> string \<Rightarrow> DataField option" where
  "field self name =
     find (\<lambda>x. f_name x = name \<or> f_property x = Some name) (m_attributes self)"

text \<open>\<^verbatim>\<open>field\<close> of a name that may be \<^verbatim>\<open>undefined\<close>: not a string, so \<^verbatim>\<open>null\<close>.\<close>

definition field_opt :: "DataModel \<Rightarrow> string option \<Rightarrow> DataField option" where
  "field_opt self name = (case name of None \<Rightarrow> None | Some n \<Rightarrow> field self n)"

text \<open>\<^verbatim>\<open>DataModel.primaryKey\<close> and \<^verbatim>\<open>DataModel.key()\<close>.\<close>

definition primaryKey :: "DataModel \<Rightarrow> string option" where
  "primaryKey self = map_option f_name (find f_primary (m_fields self))"

definition key :: "DataModel \<Rightarrow> DataField option" where
  "key self = find f_primary (m_attributes self)"

text \<open>\<^verbatim>\<open>context.model(name)\<close> of a name that may be \<^verbatim>\<open>undefined\<close>.\<close>

definition model_opt :: "DataContext \<Rightarrow> string option \<Rightarrow> DataModel option" where
  "model_opt ctx name = (case name of None \<Rightarrow> None | Some n \<Rightarrow> c_model ctx n)"

text \<open>How \<^verbatim>\<open>sprintf\<close> prints a name that may be \<^verbatim>\<open>undefined\<close>.\<close>

definition show_name :: "string option \<Rightarrow> string" where
  "show_name name = (case name of None \<Rightarrow> ''undefined'' | Some n \<Rightarrow> n)"

section \<open>Inferring the association mapping of a field\<close>

text \<open>lodash \<^verbatim>\<open>_.upperFirst\<close> on ASCII letters.\<close>

definition upperFirst :: "string \<Rightarrow> string" where
  "upperFirst s =
     (case s of
        [] \<Rightarrow> []
      | c # cs \<Rightarrow>
          (if (97::nat) \<le> of_char c \<and> (of_char c :: nat) \<le> 122
           then char_of (of_char c - (32::nat)) # cs else c # cs))"

definition is_letter :: "char \<Rightarrow> bool" where
  "is_letter c =
     (((65::nat) \<le> of_char c \<and> (of_char c :: nat) \<le> 90)
      \<or> ((97::nat) \<le> of_char c \<and> (of_char c :: nat) \<le> 122))"

text \<open>
  \<^verbatim>\<open>DataModel.PluralExpression\<close>, \<^verbatim>\<open>/([a-zA-Z]+?)([e']s|[^aiou]s)$/\<close>: the name ends
  with a letter, a character other than a, i, o, u, and an s.
\<close>

definition pluralExpression :: "string \<Rightarrow> bool" where
  "pluralExpression s =
     (case rev s of
        c1 # c2 # c3 # rest \<Rightarrow>
          c1 = CHR ''s'' \<and> c2 \<notin> {CHR ''a'', CHR ''i'', CHR ''o'', CHR ''u''} \<and> is_letter c3
      | _ \<Rightarrow> False)"

definition newMapping :: DataAssociationMapping where
  "newMapping =
     \<lparr>associationType = None, associationAdapter = None, parentModel = None,
      parentField = None, childModel = None, childField = None, refersTo = None,
      cascade = None, mapping_select = None, mapping_options = None\<rparr>"

text \<open>
  \<^verbatim>\<open>inferTagMapping_\<close>: a \<^verbatim>\<open>many\<close> field of a primitive type is a junction of the
  model with its values; reading the name of a missing primary key throws.
\<close>

definition inferTagMapping :: "DataContext \<Rightarrow> DataModel \<Rightarrow> DataField
    \<Rightarrow> error + DataAssociationMapping option" where
  "inferTagMapping ctx self fld =
     (if f_many fld \<noteq> Some True then Inr None
      else if \<not> c_dataTypes ctx (f_type fld) then Inr None
      else (case key self of
              None \<Rightarrow> Inl (TypeError ''Cannot read property name of undefined'')
            | Some pk \<Rightarrow>
                Inr (Some (newMapping\<lparr>associationType := Some ''junction'',
                     associationAdapter := Some (m_name self @ upperFirst (f_name fld)),
                     cascade := Some ''delete'',
                     parentModel := Some (m_name self),
                     parentField := Some (f_name pk),
                     refersTo := Some (f_name fld)\<rparr>))))"

definition in_superTypes :: "DataModel \<Rightarrow> string option \<Rightarrow> bool" where
  "in_superTypes self name = (case name of None \<Rightarrow> False | Some n \<Rightarrow> n \<in> set (m_superTypes self))"

text \<open>
  \<^verbatim>\<open>inferMapping\<close>, the branch of a field that declares a mapping: the mapping itself,
  unless the field is inherited and the mapping names neither side as this model; then
  the inherited association is mapped onto this model, or refused.
\<close>

definition inferDeclaredMapping :: "DataModel \<Rightarrow> DataField \<Rightarrow> DataAssociationMapping
    \<Rightarrow> error + DataAssociationMapping option" where
  "inferDeclaredMapping self fld mp =
     (if f_model fld \<noteq> m_name self then
        (if childModel mp = Some (m_name self) \<or> parentModel mp = Some (m_name self)
         then Inr (Some mp)
         else if associationType mp = Some ''association'' then
           (if in_superTypes self (childModel mp)
            then Inr (Some (mp\<lparr>childModel := Some (m_name self)\<rparr>))
            else if in_superTypes self (parentModel mp)
            then Inr (Some (mp\<lparr>childModel := Some (m_name self)\<rparr>))
            else Inl (DataError ''EMAP'' ''An inherited data association cannot be mapped.''))
         else if associationType mp = Some ''junction'' then
           (if in_superTypes self (childModel mp)
            then Inr (Some (mp\<lparr>childModel := Some (m_name self)\<rparr>))
            else if in_superTypes self (parentModel mp)
            then Inr (Some (mp\<lparr>parentModel := Some (m_name self)\<rparr>))
            else Inl (DataError ''EMAP'' ''An inherited data association cannot be mapped.''))
         else Inr (Some mp))
      else Inr (Some mp))"

text \<open>
  \<^verbatim>\<open>inferMapping\<close>, the branch of a field without a mapping: the mapping follows from
  the model the field's type names, if it names one.
\<close>

definition inferTypeMapping :: "DataContext \<Rightarrow> DataModel \<Rightarrow> DataField
    \<Rightarrow> error + DataAssociationMapping option" where
  "inferTypeMapping ctx self fld =
     (case c_model ctx (f_type fld) of
        None \<Rightarrow> (if f_many fld = Some True then inferTagMapping ctx self fld else Inr None)
      | Some associatedModel \<Rightarrow>
          (case find (\<lambda>x. f_type x = m_name self) (m_attributes associatedModel) of
             Some associatedField \<Rightarrow>
               (if f_many associatedField = Some True then
                  Inr (Some (newMapping\<lparr>parentModel := Some (m_name associatedModel),
                       parentField := primaryKey associatedModel,
                       childModel := Some (m_name self),
                       childField := Some (f_name fld),
                       associationType := Some ''association'',
                       cascade := Some ''null''\<rparr>))
                else
                  Inr (Some (newMapping\<lparr>parentModel := Some (m_name self),
                       parentField := primaryKey self,
                       childModel := Some (m_name associatedModel),
                       childField := Some (f_name associatedField),
                       associationType := Some ''association'',
                       cascade := Some ''null'',
                       refersTo := Some (case f_property fld of
                                           None \<Rightarrow> f_name fld
                                         | Some p \<Rightarrow> if p = [] then f_name fld else p)\<rparr>)))
           | None \<Rightarrow>
               (if pluralExpression (f_name fld) \<or> f_many fld = Some True then
                  Inr (Some (newMapping\<lparr>
                       associationAdapter := Some (m_name self @ upperFirst (f_name fld)),
                       parentModel := Some (m_name self),
                       parentField := primaryKey self,
                       childModel := Some (m_name associatedModel),
                       childField := primaryKey associatedModel,
                       associationType := Some ''junction'',
                       cascade := Some ''delete''\<rparr>))
                else
                  Inr (Some (newMapping\<lparr>parentModel := Some (m_name associatedModel),
                       parentField := primaryKey associatedModel,
                       childModel := Some (m_name self),
                       childField := Some (f_name fld),
                       associationType := Some ''association'',
                       cascade := Some ''null''\<rparr>)))))"

text \<open>
  \<^verbatim>\<open>DataModel.inferMapping(name)\<close>. \<^verbatim>\<open>undefined\<close> and \<^verbatim>\<open>null\<close> are both None: no
  caller tells them apart. The cache is read; writing a result into it only saves
  computing the same mapping again, and is left out.
\<close>

definition inferMapping :: "DataContext \<Rightarrow> DataModel \<Rightarrow> string
    \<Rightarrow> error + DataAssociationMapping option" where
  "inferMapping ctx self name =
     (if \<not> m_configured self then Inr None
      else (case map_of (m_mappings self) name of
              Some cached \<Rightarrow> Inr (Some cached)
            | None \<Rightarrow>
                (case field self name of
                   None \<Rightarrow> Inr None
                 | Some fld \<Rightarrow>
                     (case f_mapping fld of
                        Some mp \<Rightarrow> inferDeclaredMapping self fld mp
                      | None \<Rightarrow> inferTypeMapping ctx self fld))))"

section \<open>The query builder\<close>

text \<open>
  An entry of \<^verbatim>\<open>DataQueryable.$expand\<close>: a field name, a named object
  \<^verbatim>\<open>{ name, options }\<close>, a DataAssociationMapping, or any other value a single-argument
  \<^verbatim>\<open>expand\<close> pushed.
\<close>

datatype expand_entry =
    ExpandStr string
  | ExpandNamed string "expand_options option"
  | ExpandMapping DataAssociationMapping
  | ExpandValue jsval

record DataQueryable =
  dq_query :: QueryExpression
  dq_expand :: "expand_entry list option"
  dq_flatten :: "bool option"
  dq_levels :: "int option"
  dq_asArray :: jsval
  dq_silent :: jsval
  dq_view :: "DataModelView option"

text \<open>\<^verbatim>\<open>DataQueryable.prototype.skip\<close>: \<^verbatim>\<open>this.query.$skip = n\<close>.\<close>

definition skip :: "int \<Rightarrow> DataQueryable \<Rightarrow> DataQueryable" where
  "skip n q = q\<lparr>dq_query := (dq_query q)\<lparr>q_skip := Some n\<rparr>\<rparr>"

text \<open>
  \<^verbatim>\<open>DataQueryable.prototype.take\<close> without a callback: \<^verbatim>\<open>this.query.take(n)\<close>, which
  stores the number in \<^verbatim>\<open>$take\<close>.
\<close>

definition take_n :: "int \<Rightarrow> DataQueryable \<Rightarrow> DataQueryable" where
  "take_n n q = q\<lparr>dq_query := (dq_query q)\<lparr>q_take := Some n\<rparr>\<rparr>"



text \<open>
  \<^verbatim>\<open>DataQueryable.prototype.expand\<close>. The argument is missing or \<^verbatim>\<open>null\<close>, a single
  value, or an array (several arguments are collected into one). A nil argument deletes
  the expand list. Otherwise the list is created when it is not an array yet; an array
  argument is pushed element by element, nil elements skipped and an element that is
  neither a string nor an object with a \<^verbatim>\<open>name\<close> refused; a single argument is pushed
  as it is.
\<close>

datatype expand_arg =
    ExpandNil
  | ExpandSingle expand_entry
  | ExpandArray "expand_entry option list"

fun expand_each :: "expand_entry option list \<Rightarrow> expand_entry list \<Rightarrow> error + expand_entry list" where
  "expand_each [] acc = Inr acc"
| "expand_each (None # xs) acc = expand_each xs acc"
| "expand_each (Some (ExpandStr s) # xs) acc = expand_each xs (acc @ [ExpandStr s])"
| "expand_each (Some (ExpandNamed n opts) # xs) acc = expand_each xs (acc @ [ExpandNamed n opts])"
| "expand_each (Some x # xs) acc = Inl (Error ''Expand option may be a string or a named object.'')"

definition expand :: "expand_arg \<Rightarrow> DataQueryable \<Rightarrow> error + DataQueryable" where
  "expand arg q =
     (case arg of
        ExpandNil \<Rightarrow> Inr (q\<lparr>dq_expand := None\<rparr>)
      | ExpandSingle x \<Rightarrow>
          Inr (q\<lparr>dq_expand := Some ((case dq_expand q of None \<Rightarrow> [] | Some es \<Rightarrow> es) @ [x])\<rparr>)
      | ExpandArray xs \<Rightarrow>
          (case expand_each xs (case dq_expand q of None \<Rightarrow> [] | Some es \<Rightarrow> es) of
             Inl e \<Rightarrow> Inl e
           | Inr es \<Rightarrow> Inr (q\<lparr>dq_expand := Some es\<rparr>)))"



text \<open>\<^verbatim>\<open>DataQueryable.prototype.getLevels\<close>: \<^verbatim>\<open>$levels\<close> when it is a number, else 1.\<close>

definition getLevels :: "DataQueryable \<Rightarrow> int" where
  "getLevels q = (case dq_levels q of Some n \<Rightarrow> n | None \<Rightarrow> 1)"

section \<open>The attribute resolver\<close>

text \<open>\<^verbatim>\<open>attr.split('/')\<close>.\<close>

fun split_on :: "char \<Rightarrow> string \<Rightarrow> string list" where
  "split_on c [] = [[]]"
| "split_on c (x # xs) =
     (if x = c then [] # split_on c xs
      else (case split_on c xs of [] \<Rightarrow> [[x]] | w # ws \<Rightarrow> (x # w) # ws))"

text \<open>\<^verbatim>\<open>member[i]\<close>, \<^verbatim>\<open>undefined\<close> beyond the end.\<close>

definition member_at :: "string list \<Rightarrow> nat \<Rightarrow> string option" where
  "member_at member i = (if i < length member then Some (member ! i) else None)"

text \<open>\<^verbatim>\<open>qry.fields.select(name).from(entity)\<close> of names that may be \<^verbatim>\<open>undefined\<close>.\<close>

definition selectFrom :: "string option \<Rightarrow> string option \<Rightarrow> QueryField" where
  "selectFrom n ent = \<lparr>qf_name = n, qf_from = ent, qf_as = None, qf_aggr = None\<rparr>"

text \<open>
  \<^verbatim>\<open>res.join(entity).with(expr)\<close> and the \<^verbatim>\<open>res.$expand\<close> read back from it: one join
  object of the entity \<^verbatim>\<open>qry.entity(name).as(alias)\<close>, made a left join by
  \<^verbatim>\<open>.left()\<close>, on the equality of two fields.
\<close>

definition joinWith :: "string option \<Rightarrow> string option \<Rightarrow> string option \<Rightarrow> QueryField
    \<Rightarrow> QueryField \<Rightarrow> JoinExpr" where
  "joinWith ent alias kind l r =
     \<lparr>j_entity = \<lparr>e_name = ent, e_as = alias, e_join = kind, e_fields = []\<rparr>, j_with = (l, r)\<rparr>"

text \<open>
  One level of \<^verbatim>\<open>resolveNestedAttributeJoin\<close>, called on a model with a member
  expression that contains a slash: the join of the first segment. When the model is the
  child of the association and the path has more than two segments, the function sets
  \<^verbatim>\<open>_alias\<close> on the parent model and calls itself on it with the second and third
  segments; the parent model and that rest of the path are returned for the caller.
\<close>

definition resolveJoinLevel :: "DataContext \<Rightarrow> DataModel \<Rightarrow> string
    \<Rightarrow> error + (JoinExpr \<times> (DataModel \<times> string) option)" where
  "resolveJoinLevel ctx self memberExpr =
     (let arrMember = split_on CHR ''/'' memberExpr; first = hd arrMember in
      case field self first of
        None \<Rightarrow> Inl (Error (''The target model does not have an attribute named as '' @ first))
      | Some attrMember \<Rightarrow>
      (case inferMapping ctx self first of
        Inl e \<Rightarrow> Inl e
      | Inr None \<Rightarrow>
          Inl (Error (''The target model does not have an association defined for attribute named ''
                      @ first))
      | Inr (Some mapping) \<Rightarrow>
          (if childModel mapping = Some (m_name self)
              \<and> associationType mapping = Some ''association'' then
             (case model_opt ctx (parentModel mapping) of
                None \<Rightarrow> Inl (Error (''Association parent model ('' @ show_name (parentModel mapping)
                                     @ '') cannot be found.''))
              | Some parentModel' \<Rightarrow>
             (case field_opt self (childField mapping) of
                None \<Rightarrow> Inl (Error (''Association field ('' @ show_name (childField mapping)
                                     @ '') cannot be found.''))
              | Some childField' \<Rightarrow>
             (case field_opt parentModel' (parentField mapping) of
                None \<Rightarrow> Inl (Error (''Referenced field ('' @ show_name (parentField mapping)
                                     @ '') cannot be found.''))
              | Some parentField' \<Rightarrow>
                 (let source = (case m_alias self of
                                  None \<Rightarrow> viewAdapter self
                                | Some a \<Rightarrow> if a = [] then viewAdapter self else a);
                      j = joinWith (Some (viewAdapter parentModel')) (childField mapping)
                            (Some ''left'')
                            (selectFrom (Some (f_name childField')) (Some source))
                            (selectFrom (parentField mapping) (childField mapping))
                  in if length arrMember > 2
                     then Inr (j, Some (parentModel'\<lparr>m_alias := childField mapping\<rparr>,
                                        arrMember ! 1 @ ''/'' @ arrMember ! 2))
                     else Inr (j, None)))))
           else if parentModel mapping = Some (m_name self)
              \<and> associationType mapping = Some ''association'' then
             (case model_opt ctx (childModel mapping) of
                None \<Rightarrow> Inl (Error (''Association child model ('' @ show_name (childModel mapping)
                                     @ '') cannot be found.''))
              | Some childModel' \<Rightarrow>
             (case field_opt childModel' (childField mapping) of
                None \<Rightarrow> Inl (Error (''Association field ('' @ show_name (childField mapping)
                                     @ '') cannot be found.''))
              | Some childField' \<Rightarrow>
             (case field_opt self (parentField mapping) of
                None \<Rightarrow> Inl (Error (''Referenced field ('' @ show_name (parentField mapping)
                                     @ '') cannot be found.''))
              | Some parentField' \<Rightarrow>
                 Inr (joinWith (Some (viewAdapter childModel')) (Some first) (Some ''left'')
                        (selectFrom (Some (f_name parentField')) (Some (viewAdapter self)))
                        (selectFrom (Some (f_name childField')) (Some first)), None))))
           else Inl (Error (''The association type between '' @ show_name (parentModel mapping)
                  @ '' and '' @ show_name (childModel mapping)
                  @ '' model is not supported for filtering, grouping or sorting data.'')))))"

text \<open>
  \<^verbatim>\<open>resolveNestedAttributeJoin\<close>: \<^verbatim>\<open>undefined\<close> for an expression without a slash, the
  join of a two-segment path, or the array of the join and of the result of the call on
  the parent model. That call gets a path of exactly two segments, so it returns one
  join and calls no further.
\<close>

definition resolveNestedAttributeJoin :: "DataContext \<Rightarrow> DataModel \<Rightarrow> string
    \<Rightarrow> error + expandv" where
  "resolveNestedAttributeJoin ctx self memberExpr =
     (if CHR ''/'' \<notin> set memberExpr then Inr ExpandUndefined
      else (case resolveJoinLevel ctx self memberExpr of
              Inl e \<Rightarrow> Inl e
            | Inr (j, None) \<Rightarrow> Inr (ExpandOne j)
            | Inr (j, Some (parentModel', rest)) \<Rightarrow>
                (case resolveJoinLevel ctx parentModel' rest of
                   Inl e \<Rightarrow> Inl e
                 | Inr (j2, further) \<Rightarrow> Inr (ExpandMany [j, j2]))))"

text \<open>
  \<^verbatim>\<open>resolveJunctionAttributeJoin\<close>: the joins through the association adapter of a
  junction, and the field to select.
\<close>

definition resolveJunctionAttributeJoin :: "DataContext \<Rightarrow> DataModel \<Rightarrow> string
    \<Rightarrow> error + (expandv \<times> QueryField)" where
  "resolveJunctionAttributeJoin ctx self attr =
     (let member = split_on CHR ''/'' attr in
      case inferMapping ctx self (hd member) of
        Inl e \<Rightarrow> Inl e
      | Inr None \<Rightarrow> Inl (DataError ''EJUNC''
          ''The target model does not have a many to many association defined by the given attribute.'')
      | Inr (Some mapping) \<Rightarrow>
          (if associationType mapping \<noteq> Some ''junction'' then Inl (DataError ''EJUNC''
             ''The target model does not have a many to many association defined by the given attribute.'')
           else (case field self (hd member) of
             None \<Rightarrow> Inl (TypeError ''Cannot read property name of undefined'')
           | Some fld \<Rightarrow>
               (if parentModel mapping = Some (m_name self) then
                  (let parentField' = (if childModel mapping = None then ''object'' else ''parentId'');
                       valueField = (if childModel mapping = None then ''value'' else ''valueId'');
                       j = joinWith (associationAdapter mapping) (Some (f_name fld)) None
                             (selectFrom (parentField mapping) (Some (viewAdapter self)))
                             (selectFrom (Some parentField') (Some (f_name fld)))
                   in if childModel mapping = None
                      then Inr (ExpandMany [j], selectFrom (Some valueField) (Some (f_name fld)))
                      else if member_at member 1 = childField mapping
                      then Inr (ExpandMany [j], selectFrom (Some valueField) (Some (f_name fld)))
                      else (case model_opt ctx (childModel mapping) of
                              None \<Rightarrow> Inl (DataError ''EJUNC'' ''The associated model cannot be found.'')
                            | Some childModel' \<Rightarrow>
                                (let alias = f_name fld @ ''_'' @ m_name childModel' in
                                 Inr (ExpandMany [j,
                                        joinWith (Some (viewAdapter childModel')) (Some alias) None
                                          (selectFrom (Some ''valueId'') (Some (f_name fld)))
                                          (selectFrom (childField mapping) (Some alias))],
                                      selectFrom (member_at member 1) (Some alias)))))
                else
                  (let j = joinWith (associationAdapter mapping) (Some (f_name fld)) None
                             (selectFrom (childField mapping) (Some (viewAdapter self)))
                             (selectFrom (Some ''valueId'') (Some (f_name fld)))
                   in if member_at member 1 = parentField mapping
                      then Inr (ExpandMany [j], selectFrom (Some ''parentId'') (Some (f_name fld)))
                      else (case model_opt ctx (parentModel mapping) of
                              None \<Rightarrow> Inl (DataError ''EJUNC'' ''The associated model cannot be found.'')
                            | Some parentModel' \<Rightarrow>
                                (let parentAlias = f_name fld @ ''_'' @ m_name parentModel' in
                                 Inr (ExpandMany [j,
                                        joinWith (Some (viewAdapter parentModel')) (Some parentAlias) None
                                          (selectFrom (Some ''parentId'') (Some (f_name fld)))
                                          (selectFrom (parentField mapping) (Some parentAlias))],
                                      selectFrom (member_at member 1) (Some parentAlias)))))))))"

text \<open>
  The de-duplication of \<^verbatim>\<open>resolveNestedAttribute\<close>: a join is pushed unless the list
  holds a join whose entity has a truthy alias equal to the alias of the new one.
\<close>

definition same_alias :: "JoinExpr \<Rightarrow> JoinExpr \<Rightarrow> bool" where
  "same_alias y x =
     (case e_as (j_entity x) of
        None \<Rightarrow> False
      | Some a \<Rightarrow> a \<noteq> [] \<and> e_as (j_entity y) = Some a)"

fun push_joins :: "JoinExpr list \<Rightarrow> JoinExpr list \<Rightarrow> JoinExpr list" where
  "push_joins existing [] = existing"
| "push_joins existing (y # ys) =
     push_joins (if list_ex (same_alias y) existing then existing else existing @ [y]) ys"

text \<open>
  \<^verbatim>\<open>resolveNestedAttribute\<close>, called on a DataQueryable: the field to use for an
  attribute with a slash, with the joins it needs merged into \<^verbatim>\<open>query.$expand\<close>. An
  undefined \<^verbatim>\<open>$expand\<close> takes the new joins as they come; otherwise \<^verbatim>\<open>$expand\<close>
  becomes an array and the new joins are pushed unless already there. An attribute
  without a slash gives \<^verbatim>\<open>undefined\<close> and changes nothing.
\<close>

definition resolveNestedAttribute :: "DataContext \<Rightarrow> DataModel \<Rightarrow> DataQueryable \<Rightarrow> string
    \<Rightarrow> error + (QueryField option \<times> DataQueryable)" where
  "resolveNestedAttribute ctx self q attr =
     (if CHR ''/'' \<notin> set attr then Inr (None, q)
      else
        (let member = split_on CHR ''/'' attr in
         case inferMapping ctx self (hd member) of
           Inl e \<Rightarrow> Inl e
         | Inr mapping \<Rightarrow>
             (case (if (case mapping of None \<Rightarrow> False
                                      | Some mp \<Rightarrow> associationType mp = Some ''junction'')
                    then resolveJunctionAttributeJoin ctx self attr
                    else (case resolveNestedAttributeJoin ctx self attr of
                            Inl e \<Rightarrow> Inl e
                          | Inr expr \<Rightarrow>
                              Inr (expr,
                                   if length member > 2
                                   then selectFrom (member_at member 2) (member_at member 1)
                                   else selectFrom (member_at member 1) (member_at member 0)))) of
                Inl e \<Rightarrow> Inl e
              | Inr (ExpandUndefined, sel) \<Rightarrow>
                  Inl (Error ''Member join expression cannot be empty at this context'')
              | Inr (expr, sel) \<Rightarrow>
                  (let qe = dq_query q in
                   Inr (Some sel,
                        q\<lparr>dq_query := qe\<lparr>q_expand :=
                             (case q_expand qe of
                                ExpandUndefined \<Rightarrow> expr
                              | existing \<Rightarrow> ExpandMany (push_joins (joins existing) (joins expr)))\<rparr>\<rparr>)))))"

text \<open>
  \<^verbatim>\<open>DataQueryable.prototype.where\<close> with a nested attribute: the attribute is resolved
  and the field becomes the left operand of the pending comparison.
\<close>

definition where_nested :: "DataContext \<Rightarrow> DataModel \<Rightarrow> DataQueryable \<Rightarrow> string
    \<Rightarrow> error + DataQueryable" where
  "where_nested ctx self q attr =
     (case resolveNestedAttribute ctx self q attr of
        Inl e \<Rightarrow> Inl e
      | Inr (None, q') \<Rightarrow> Inl (Error ''Left operand cannot be empty. Expected string or object.'')
      | Inr (Some f, q') \<Rightarrow> Inr (q'\<lparr>dq_query := (dq_query q')\<lparr>q_where := None, q_left := Some f\<rparr>\<rparr>))"

section \<open>Attribute expressions\<close>

text \<open>
  The regular expressions of the resolver are built from \<^verbatim>\<open>\w+\<close> groups, single
  characters, \<^verbatim>\<open>\s\<close> and the letters of \<^verbatim>\<open>as\<close> (matched in either case, the
  expressions carry the flag \<^verbatim>\<open>i\<close>), anchored at both ends. Every \<^verbatim>\<open>\w+\<close> is
  followed by a character that is not a word character, or by the end, so the greedy
  match is the only one.
\<close>

definition is_word :: "char \<Rightarrow> bool" where
  "is_word c =
     (let n = (of_char c :: nat)
      in (48 \<le> n \<and> n \<le> 57) \<or> (65 \<le> n \<and> n \<le> 90) \<or> n = 95 \<or> (97 \<le> n \<and> n \<le> 122))"

definition is_space :: "char \<Rightarrow> bool" where
  "is_space c = (let n = (of_char c :: nat) in (9 \<le> n \<and> n \<le> 13) \<or> n = 32)"

definition is_line_terminator :: "char \<Rightarrow> bool" where
  "is_line_terminator c = (let n = (of_char c :: nat) in n = 10 \<or> n = 13)"

definition lower :: "char \<Rightarrow> char" where
  "lower c =
     (let n = (of_char c :: nat) in if 65 \<le> n \<and> n \<le> 90 then char_of (n + 32) else c)"

datatype tok = W | C char | I char | S

fun match_toks :: "tok list \<Rightarrow> string \<Rightarrow> string list option" where
  "match_toks [] s = (if s = [] then Some [] else None)"
| "match_toks (W # ts) s =
     (let w = takeWhile is_word s
      in if w = [] then None else map_option ((#) w) (match_toks ts (dropWhile is_word s)))"
| "match_toks (C c # ts) [] = None"
| "match_toks (C c # ts) (x # xs) = (if x = c then match_toks ts xs else None)"
| "match_toks (I c # ts) [] = None"
| "match_toks (I c # ts) (x # xs) = (if lower x = c then match_toks ts xs else None)"
| "match_toks (S # ts) [] = None"
| "match_toks (S # ts) (x # xs) = (if is_space x then match_toks ts xs else None)"

text \<open>The pieces the expressions share: \<^verbatim>\<open>\sas\s(\w+)\<close> and \<^verbatim>\<open>\/(\w+)\<close>.\<close>

definition as_alias :: "tok list" where
  "as_alias = [S, I CHR ''a'', I CHR ''s'', S, W]"

text \<open>
  What a test of an attribute expression finds: the name, and the alias if any. The tests
  try their expressions in order and the first that matches decides; a match of an
  expression with k groups has exactly k captures.
\<close>

record attr_match =
  am_name :: string
  am_property :: "string option"

definition orelse :: "'a option \<Rightarrow> 'a option \<Rightarrow> 'a option" where
  "orelse a b = (case a of Some x \<Rightarrow> Some x | None \<Rightarrow> b)"

definition named :: "string \<Rightarrow> string option \<Rightarrow> attr_match" where
  "named n p = \<lparr>am_name = n, am_property = p\<rparr>"

text \<open>\<^verbatim>\<open>testAttribute\<close>: \<^verbatim>\<open>f(x) as a\<close>, \<^verbatim>\<open>x as a\<close>, \<^verbatim>\<open>f(x)\<close> or \<^verbatim>\<open>x\<close>.\<close>

definition testAttribute :: "string \<Rightarrow> attr_match option" where
  "testAttribute s =
     orelse (map_option (\<lambda>m. named (m ! 0 @ ''('' @ m ! 1 @ '')'') (Some (m ! 2)))
               (match_toks ([W, C CHR ''('', W, C CHR '')''] @ as_alias) s))
    (orelse (map_option (\<lambda>m. named (m ! 0) (Some (m ! 1)))
               (match_toks (W # as_alias) s))
    (orelse (map_option (\<lambda>m. named (m ! 0 @ ''('' @ m ! 1 @ '')'') None)
               (match_toks [W, C CHR ''('', W, C CHR '')''] s))
            (map_option (\<lambda>m. named s None) (match_toks [W] s))))"

text \<open>
  \<^verbatim>\<open>testAggregatedNestedAttribute\<close>: \<^verbatim>\<open>f(x/b)\<close> or \<^verbatim>\<open>f(x/b/c)\<close>, with or without
  an alias; the aggregate function is returned with the match.
\<close>

definition testAggregatedNestedAttribute :: "string \<Rightarrow> (string \<times> attr_match) option" where
  "testAggregatedNestedAttribute s =
     orelse (map_option (\<lambda>m. (m ! 0, named (m ! 1 @ ''/'' @ m ! 2) (Some (m ! 3))))
               (match_toks ([W, C CHR ''('', W, C CHR ''/'', W, C CHR '')''] @ as_alias) s))
    (orelse (map_option (\<lambda>m. (m ! 0, named (m ! 1 @ ''/'' @ m ! 2 @ ''/'' @ m ! 3) (Some (m ! 4))))
               (match_toks ([W, C CHR ''('', W, C CHR ''/'', W, C CHR ''/'', W, C CHR '')'']
                            @ as_alias) s))
    (orelse (map_option (\<lambda>m. (m ! 0, named (m ! 1 @ ''/'' @ m ! 2) None))
               (match_toks [W, C CHR ''('', W, C CHR ''/'', W, C CHR '')''] s))
            (map_option (\<lambda>m. (m ! 0, named (m ! 1 @ ''/'' @ m ! 2 @ ''/'' @ m ! 3) None))
               (match_toks [W, C CHR ''('', W, C CHR ''/'', W, C CHR ''/'', W, C CHR '')''] s))))"

text \<open>
  \<^verbatim>\<open>testNestedAttribute\<close>: a path of two or three segments, plain or inside an
  aggregate function, with or without an alias.
\<close>

definition testNestedAttribute :: "string \<Rightarrow> attr_match option" where
  "testNestedAttribute s =
     orelse (map_option (\<lambda>m. named (m ! 0 @ ''('' @ m ! 1 @ ''/'' @ m ! 2 @ '')'') (Some (m ! 3)))
               (match_toks ([W, C CHR ''('', W, C CHR ''/'', W, C CHR '')''] @ as_alias) s))
    (orelse (map_option (\<lambda>m. named (m ! 0 @ ''('' @ m ! 1 @ ''/'' @ m ! 2 @ ''/'' @ m ! 3 @ '')'')
                                (Some (m ! 4)))
               (match_toks ([W, C CHR ''('', W, C CHR ''/'', W, C CHR ''/'', W, C CHR '')'']
                            @ as_alias) s))
    (orelse (map_option (\<lambda>m. named (m ! 0 @ ''/'' @ m ! 1) (Some (m ! 2)))
               (match_toks ([W, C CHR ''/'', W] @ as_alias) s))
    (orelse (map_option (\<lambda>m. named (m ! 0 @ ''/'' @ m ! 1 @ ''/'' @ m ! 2) (Some (m ! 3)))
               (match_toks ([W, C CHR ''/'', W, C CHR ''/'', W] @ as_alias) s))
    (orelse (map_option (\<lambda>m. named (m ! 0 @ ''('' @ m ! 1 @ ''/'' @ m ! 2 @ '')'') None)
               (match_toks [W, C CHR ''('', W, C CHR ''/'', W, C CHR '')''] s))
    (orelse (map_option (\<lambda>m. named (m ! 0 @ ''('' @ m ! 1 @ ''/'' @ m ! 2 @ ''/'' @ m ! 3 @ '')'') None)
               (match_toks [W, C CHR ''('', W, C CHR ''/'', W, C CHR ''/'', W, C CHR '')''] s))
    (orelse (map_option (\<lambda>m. named s None) (match_toks [W, C CHR ''/'', W] s))
            (map_option (\<lambda>m. named s None)
               (match_toks [W, C CHR ''/'', W, C CHR ''/'', W] s))))))))"

text \<open>
  The expressions of \<^verbatim>\<open>fieldOf\<close> are searched, not anchored. \<^verbatim>\<open>\((.*?)\)\<close> after a
  name: an opening parenthesis, the characters up to the first closing one, none of them
  a line terminator.
\<close>

definition call_body :: "string \<Rightarrow> string option" where
  "call_body s =
     (case s of
        [] \<Rightarrow> None
      | c # r \<Rightarrow>
          (if c = CHR ''(''
           then (let inner = takeWhile (\<lambda>x. x \<noteq> CHR '')'') r
                 in if length inner < length r \<and> \<not> list_ex is_line_terminator inner
                    then Some inner else None)
           else None))"

text \<open>\<^verbatim>\<open>/(count|avg|sum|min|max)\((.*?)\)/i\<close> at the start of a string, and searched.\<close>

definition aggregate_at :: "string \<Rightarrow> (string \<times> string) option" where
  "aggregate_at s =
     (case find (\<lambda>n. map lower (take (length n) s) = n)
             [''count'', ''avg'', ''sum'', ''min'', ''max''] of
        None \<Rightarrow> None
      | Some n \<Rightarrow> map_option (Pair (take (length n) s)) (call_body (drop (length n) s)))"

fun search_aggregate :: "string \<Rightarrow> (string \<times> string) option" where
  "search_aggregate [] = aggregate_at []"
| "search_aggregate (c # cs) =
     (case aggregate_at (c # cs) of Some r \<Rightarrow> Some r | None \<Rightarrow> search_aggregate cs)"

text \<open>\<^verbatim>\<open>/(\w+)\((.*?)\)/i\<close> at the start of a string, and searched.\<close>

definition call_at :: "string \<Rightarrow> (string \<times> string) option" where
  "call_at s =
     (let w = takeWhile is_word s
      in if w = [] then None else map_option (Pair w) (call_body (dropWhile is_word s)))"

fun search_call :: "string \<Rightarrow> (string \<times> string) option" where
  "search_call [] = call_at []"
| "search_call (c # cs) =
     (case call_at (c # cs) of Some r \<Rightarrow> Some r | None \<Rightarrow> search_call cs)"

text \<open>\<^verbatim>\<open>/^(\w+)\s+as\s+(.*?)$/i\<close>.\<close>

definition field_as_alias :: "string \<Rightarrow> (string \<times> string) option" where
  "field_as_alias s =
     (let w = takeWhile is_word s; r1 = dropWhile is_word s; r2 = dropWhile is_space r1
      in if w = [] \<or> r1 = r2 then None
         else (case r2 of
                 a # b # r3 \<Rightarrow>
                   (let r4 = dropWhile is_space r3
                    in if lower a = CHR ''a'' \<and> lower b = CHR ''s'' \<and> r3 \<noteq> r4
                          \<and> \<not> list_ex is_line_terminator r4
                       then Some (w, r4) else None)
               | _ \<Rightarrow> None))"

text \<open>\<^verbatim>\<open>/as\s(\w+)$/i\<close>.\<close>

definition alias_suffix :: "string \<Rightarrow> string option" where
  "alias_suffix s =
     (let r = rev s; w = takeWhile is_word r
      in if w = [] then None
         else (case dropWhile is_word r of
                 sp # b # a # rest \<Rightarrow>
                   (if is_space sp \<and> lower b = CHR ''s'' \<and> lower a = CHR ''a''
                    then Some (rev w) else None)
               | _ \<Rightarrow> None))"

text \<open>\<^verbatim>\<open>x || y\<close> on names: the first that is a non-empty string.\<close>

definition or_name :: "string option \<Rightarrow> string \<Rightarrow> string" where
  "or_name a b = (case a of None \<Rightarrow> b | Some s \<Rightarrow> if s = [] then b else s)"

definition aggregateField :: "string \<Rightarrow> string option \<Rightarrow> string option \<Rightarrow> string option
    \<Rightarrow> QueryField" where
  "aggregateField aggr n ent alias = \<lparr>qf_name = n, qf_from = ent, qf_as = alias, qf_aggr = Some aggr\<rparr>"

text \<open>
  \<^verbatim>\<open>DataQueryable.prototype.fieldOf\<close> of a string: an aggregate of a field or of a
  nested attribute, another function of a field, a field with an alias, or a field. A
  field that the model does not have is an error.
\<close>

definition fieldOf :: "DataContext \<Rightarrow> DataModel \<Rightarrow> DataQueryable \<Rightarrow> string \<Rightarrow> string option
    \<Rightarrow> error + (QueryField \<times> DataQueryable)" where
  "fieldOf ctx self q attr alias =
     (case search_aggregate attr of
        Some (fn, inner) \<Rightarrow>
          (let aggr = map lower fn in
           case (if field self inner = None \<and> CHR ''/'' \<in> set inner
                 then resolveNestedAttribute ctx self q inner else Inr (None, q)) of
             Inl e \<Rightarrow> Inl e
           | Inr (Some nestedAttr, q') \<Rightarrow>
               Inr (aggregateField aggr (qf_name nestedAttr) (qf_from nestedAttr)
                      (Some (case alias of
                               Some a \<Rightarrow> a
                             | None \<Rightarrow>
                                 (case alias_suffix attr of
                                    Some a \<Rightarrow> a
                                  | None \<Rightarrow> aggr @ ''Of_''
                                      @ map (\<lambda>c. if c = CHR ''/'' then CHR ''_'' else c) inner))),
                    q')
           | Inr (None, q') \<Rightarrow>
               (case field self inner of
                  None \<Rightarrow> Inl (Error (''The specified field '' @ inner
                                       @ '' cannot be found in target model.''))
                | Some fld \<Rightarrow>
                    Inr (aggregateField aggr (Some (f_name fld)) (Some (viewAdapter self))
                           (Some (case alias of
                                    Some a \<Rightarrow> a
                                  | None \<Rightarrow>
                                      (case alias_suffix attr of
                                         Some a \<Rightarrow> a
                                       | None \<Rightarrow> aggr @ ''Of'' @ f_name fld))),
                         q')))
      | None \<Rightarrow>
     (case search_call attr of
        Some (aggr, inner) \<Rightarrow>
          (case field self inner of
             None \<Rightarrow> Inl (Error (''The specified field '' @ inner
                                  @ '' cannot be found in target model.''))
           | Some fld \<Rightarrow>
               Inr (aggregateField aggr (Some (f_name fld)) (Some (viewAdapter self))
                      (Some (or_name (case alias of Some a \<Rightarrow> Some a | None \<Rightarrow> alias_suffix attr)
                               (or_name (f_property fld) (f_name fld)))),
                    q))
      | None \<Rightarrow>
     (case field_as_alias attr of
        Some (n, a) \<Rightarrow>
          (case field self n of
             None \<Rightarrow> Inl (Error (''The specified field '' @ attr
                                  @ '' cannot be found in target model.''))
           | Some fld \<Rightarrow>
               Inr ((selectFrom (Some (f_name fld)) (Some (viewAdapter self)))
                      \<lparr>qf_as := Some (or_name (Some a) (or_name (f_property fld) (f_name fld)))\<rparr>,
                    q))
      | None \<Rightarrow>
          (case field self attr of
             None \<Rightarrow> Inl (Error (''The specified field '' @ attr
                                  @ '' cannot be found in target model.''))
           | Some fld \<Rightarrow>
               Inr ((selectFrom (Some (f_name fld)) (Some (viewAdapter self)))
                      \<lparr>qf_as := (case f_property fld of
                                   None \<Rightarrow> None
                                 | Some p \<Rightarrow> if p = [] then None else Some p)\<rparr>,
                    q)))))"

text \<open>
  \<^verbatim>\<open>selecteNestedAttribute\<close>: the resolved field of a nested attribute, under the given
  alias or under the path with its slashes turned into underscores.
\<close>

definition selecteNestedAttribute :: "DataContext \<Rightarrow> DataModel \<Rightarrow> DataQueryable \<Rightarrow> string
    \<Rightarrow> string option \<Rightarrow> error + (QueryField option \<times> DataQueryable)" where
  "selecteNestedAttribute ctx self q attr alias =
     (case resolveNestedAttribute ctx self q attr of
        Inl e \<Rightarrow> Inl e
      | Inr (None, q') \<Rightarrow> Inr (None, q')
      | Inr (Some expr, q') \<Rightarrow>
          Inr (Some (expr\<lparr>qf_as := Some (case alias of
                                           None \<Rightarrow> map (\<lambda>c. if c = CHR ''/'' then CHR ''_'' else c) attr
                                         | Some a \<Rightarrow> a)\<rparr>), q'))"

text \<open>
  \<^verbatim>\<open>selectAggregatedAttribute\<close>: the field of the attribute, nested or not, wrapped in
  the aggregate function. Reading the alias of a result that is \<^verbatim>\<open>undefined\<close> throws.
\<close>

definition selectAggregatedAttribute :: "DataContext \<Rightarrow> DataModel \<Rightarrow> DataQueryable \<Rightarrow> string
    \<Rightarrow> string \<Rightarrow> string option \<Rightarrow> error + (QueryField \<times> DataQueryable)" where
  "selectAggregatedAttribute ctx self q aggregation attribute alias =
     (case (if testNestedAttribute attribute \<noteq> None
            then selecteNestedAttribute ctx self q attribute alias
            else (case fieldOf ctx self q attribute None of
                    Inl e \<Rightarrow> Inl e
                  | Inr (f, q') \<Rightarrow> Inr (Some f, q'))) of
        Inl e \<Rightarrow> Inl e
      | Inr (None, q') \<Rightarrow> Inl (TypeError ''Cannot read property as of undefined'')
      | Inr (Some result, q') \<Rightarrow> Inr (result\<lparr>qf_aggr := Some aggregation\<rparr>, q'))"

text \<open>
  \<^verbatim>\<open>select_\<close>, the local helper of \<^verbatim>\<open>select\<close> for an argument that names no field:
  nothing for the empty string, else the first of the three tests that matches decides.
\<close>

definition select_fn :: "DataContext \<Rightarrow> DataModel \<Rightarrow> DataQueryable \<Rightarrow> string
    \<Rightarrow> error + (QueryField option \<times> DataQueryable)" where
  "select_fn ctx self q arg =
     (if arg = [] then Inr (None, q)
      else (case testAggregatedNestedAttribute arg of
              Some (aggr, a) \<Rightarrow>
                (case selectAggregatedAttribute ctx self q aggr (am_name a) (am_property a) of
                   Inl e \<Rightarrow> Inl e
                 | Inr (f, q') \<Rightarrow> Inr (Some f, q'))
            | None \<Rightarrow>
                (case testNestedAttribute arg of
                   Some a \<Rightarrow> selecteNestedAttribute ctx self q (am_name a) (am_property a)
                 | None \<Rightarrow>
                     (case (case testAttribute arg of
                              Some a \<Rightarrow> fieldOf ctx self q (am_name a) (am_property a)
                            | None \<Rightarrow> fieldOf ctx self q arg None) of
                        Inl e \<Rightarrow> Inl e
                      | Inr (f, q') \<Rightarrow> Inr (Some f, q')))))"

section \<open>Projection\<close>

text \<open>
  The argument of \<^verbatim>\<open>DataQueryable.prototype.select\<close>: nothing, one string, or an array
  of attribute expressions and ready-made query fields (several arguments are collected
  into an array).
\<close>

datatype select_item = AttrName string | FieldObject QueryField

datatype select_arg = SelectUndefined | SelectStr string | SelectArr "select_item list"

text \<open>The test \<^verbatim>\<open>field.many || (field.mapping && field.mapping.associationType === 'junction')\<close>.\<close>

definition many_or_junction :: "DataField \<Rightarrow> bool" where
  "many_or_junction fld =
     (f_many fld = Some True
      \<or> (case f_mapping fld of None \<Rightarrow> False | Some mp \<Rightarrow> associationType mp = Some ''junction''))"

text \<open>\<^verbatim>\<open>QueryExpression.select(fields)\<close> of most-query: the fields become the projection.\<close>

definition query_select :: "QueryField list \<Rightarrow> QueryExpression \<Rightarrow> QueryExpression" where
  "query_select fs qe = qe\<lparr>q_select := Some fs\<rparr>"

text \<open>
  The loop of \<^verbatim>\<open>select\<close> over an array argument: a string that names a field is
  expanded when the field is \<^verbatim>\<open>many\<close> or a junction and projected otherwise, any other
  string goes through \<^verbatim>\<open>select_\<close>, and a query field is pushed as it is.
\<close>

fun select_each :: "DataContext \<Rightarrow> DataModel \<Rightarrow> select_item list \<Rightarrow> QueryField list
    \<Rightarrow> DataQueryable \<Rightarrow> error + (QueryField list \<times> DataQueryable)" where
  "select_each ctx self [] arr q = Inr (arr, q)"
| "select_each ctx self (FieldObject f # xs) arr q = select_each ctx self xs (arr @ [f]) q"
| "select_each ctx self (AttrName x # xs) arr q =
     (case field self x of
        Some fld \<Rightarrow>
          (if many_or_junction fld then
             (case expand (ExpandSingle (ExpandStr (f_name fld))) q of
                Inl e \<Rightarrow> Inl e
              | Inr q' \<Rightarrow> select_each ctx self xs arr q')
           else
             (case fieldOf ctx self q (f_name fld) None of
                Inl e \<Rightarrow> Inl e
              | Inr (f, q') \<Rightarrow> select_each ctx self xs (arr @ [f]) q'))
      | None \<Rightarrow>
          (case select_fn ctx self q x of
             Inl e \<Rightarrow> Inl e
           | Inr (None, q') \<Rightarrow> select_each ctx self xs arr q'
           | Inr (Some f, q') \<Rightarrow> select_each ctx self xs (arr @ [f]) q'))"

text \<open>The loop of \<^verbatim>\<open>select\<close> over the fields of a named view.\<close>

fun select_view_each :: "DataContext \<Rightarrow> DataModel \<Rightarrow> (string \<times> string option) list
    \<Rightarrow> QueryField list \<Rightarrow> DataQueryable \<Rightarrow> error + (QueryField list \<times> DataQueryable)" where
  "select_view_each ctx self [] arr q = Inr (arr, q)"
| "select_view_each ctx self ((name, property) # xs) arr q =
     (case field self name of
        Some fld \<Rightarrow>
          (if many_or_junction fld then
             (case expand (ExpandSingle (ExpandStr (f_name fld))) q of
                Inl e \<Rightarrow> Inl e
              | Inr q' \<Rightarrow> select_view_each ctx self xs arr q')
           else
             (case fieldOf ctx self q (f_name fld) None of
                Inl e \<Rightarrow> Inl e
              | Inr (f, q') \<Rightarrow> select_view_each ctx self xs (arr @ [f]) q'))
      | None \<Rightarrow>
          (case (case testAggregatedNestedAttribute name of
                   Some (aggr, b) \<Rightarrow>
                     (case selectAggregatedAttribute ctx self q aggr (am_name b) None of
                        Inl e \<Rightarrow> Inl e
                      | Inr (f, q') \<Rightarrow> Inr (Some f, q'))
                 | None \<Rightarrow>
                     (case testNestedAttribute name of
                        Some b \<Rightarrow> selecteNestedAttribute ctx self q (am_name b) property
                      | None \<Rightarrow>
                          (case (case testAttribute name of
                                   Some b \<Rightarrow> fieldOf ctx self q (am_name b) property
                                 | None \<Rightarrow>
                                     (if CHR ''.'' \<in> set name
                                      then fieldOf ctx self q (hd (split_on CHR ''.'' name)) None
                                      else fieldOf ctx self q name None)) of
                             Inl e \<Rightarrow> Inl e
                           | Inr (f, q') \<Rightarrow> Inr (Some f, q')))) of
             Inl e \<Rightarrow> Inl e
           | Inr (None, q') \<Rightarrow> select_view_each ctx self xs arr q'
           | Inr (Some f, q') \<Rightarrow> select_view_each ctx self xs (arr @ [f]) q'))"

text \<open>
  The attributes \<^verbatim>\<open>select\<close> falls back on when nothing is projected: those that are
  not \<^verbatim>\<open>many\<close>, and those that are expandable while the levels are positive; each
  under its property, or under its name when it has none. \<^verbatim>\<open>select.apply\<close> hands them
  over as no argument, one string or an array.
\<close>

definition default_fields :: "DataModel \<Rightarrow> DataQueryable \<Rightarrow> string list" where
  "default_fields self q =
     map (\<lambda>x. or_name (f_property x) (f_name x))
       (filter (\<lambda>x. f_many x = Some False \<or> f_many x = None
                     \<or> (f_expandable x \<and> getLevels q > 0))
          (m_attributes self))"

definition apply_args :: "string list \<Rightarrow> select_arg" where
  "apply_args names =
     (if names = [] then SelectUndefined
      else if length names = 1 then SelectStr (hd names)
      else SelectArr (map AttrName names))"

text \<open>
  One call of \<^verbatim>\<open>select\<close> up to the point where it returns or calls itself: it calls
  itself on the name of a view passed as a one-element array, and on the default
  attributes when no projection came out of the argument and the query has no fields.
\<close>

datatype select_step = Done "error + DataQueryable" | Again DataQueryable select_arg

definition select_finish :: "DataModel \<Rightarrow> DataQueryable \<Rightarrow> QueryField list option \<Rightarrow> select_step" where
  "select_finish self q arr =
     (case arr of
        None \<Rightarrow>
          (if \<not> hasFields (dq_query q) then Again q (apply_args (default_fields self q))
           else Done (Inr q))
      | Some fs \<Rightarrow> Done (Inr (q\<lparr>dq_query := query_select fs (dq_query q)\<rparr>)))"

definition select_string :: "DataContext \<Rightarrow> DataModel \<Rightarrow> DataQueryable \<Rightarrow> string
    \<Rightarrow> error + (QueryField list option \<times> DataQueryable)" where
  "select_string ctx self q arg =
     (case field self arg of
        Some fld \<Rightarrow>
          (if many_or_junction fld then
             (case expand (ExpandSingle (ExpandStr (f_name fld))) q of
                Inl e \<Rightarrow> Inl e
              | Inr q' \<Rightarrow> Inr (None, q'))
           else
             (case fieldOf ctx self q (f_name fld) None of
                Inl e \<Rightarrow> Inl e
              | Inr (f, q') \<Rightarrow> Inr (Some [f], q')))
      | None \<Rightarrow>
          (let q1 = q\<lparr>dq_view := m_dataviews self arg\<rparr> in
           case dq_view q1 of
             Some v \<Rightarrow>
               (case select_view_each ctx self (view_fields v) [] q1 of
                  Inl e \<Rightarrow> Inl e
                | Inr (arr, q') \<Rightarrow> Inr (if arr = [] then None else Some arr, q'))
           | None \<Rightarrow>
               (case select_fn ctx self q1 arg of
                  Inl e \<Rightarrow> Inl e
                | Inr (None, q') \<Rightarrow> Inr (None, q')
                | Inr (Some f, q') \<Rightarrow> Inr (Some [f], q'))))"

definition select_step :: "DataContext \<Rightarrow> DataModel \<Rightarrow> DataQueryable \<Rightarrow> select_arg
    \<Rightarrow> select_step" where
  "select_step ctx self q arg =
     (case arg of
        SelectUndefined \<Rightarrow> select_finish self q None
      | SelectStr s \<Rightarrow>
          (if s = ''*'' then Done (Inr (q\<lparr>dq_query := (dq_query q)\<lparr>q_select := None\<rparr>\<rparr>))
           else (case select_string ctx self q s of
                   Inl e \<Rightarrow> Done (Inl e)
                 | Inr (arr, q') \<Rightarrow> select_finish self q' arr))
      | SelectArr xs \<Rightarrow>
          (if (case xs of [AttrName x] \<Rightarrow> m_dataviews self x \<noteq> None | _ \<Rightarrow> False)
           then Again q (case hd xs of AttrName x \<Rightarrow> SelectStr x | FieldObject f \<Rightarrow> SelectUndefined)
           else (case select_each ctx self xs [] q of
                   Inl e \<Rightarrow> Done (Inl e)
                 | Inr (arr, q') \<Rightarrow> select_finish self q' (Some arr))))"


section \<open>Array collapse\<close>

text \<open>
  The loop of \<^verbatim>\<open>toArrayCallback\<close>: a nil row is skipped; of any other row the value
  under its first key is pushed when that value is truthy.
\<close>

fun collapse :: "jsval list \<Rightarrow> jsval list" where
  "collapse [] = []"
| "collapse (x # xs) =
     (if isNil x then collapse xs
      else (case first_key x of
              None \<Rightarrow> collapse xs
            | Some k \<Rightarrow> if truthy (get_prop x k) then get_prop x k # collapse xs
                          else collapse xs))"

text \<open>
  \<^verbatim>\<open>toArrayCallback\<close>: with \<^verbatim>\<open>$asArray\<close> set and exactly one field in
  \<^verbatim>\<open>query.fields()\<close> the rows are collapsed; in every other case the result is handed on
  unchanged. A result without \<^verbatim>\<open>forEach\<close> makes the collapse throw, which the
  \<^verbatim>\<open>catch\<close> hands to the callback.
\<close>

definition toArrayCallback :: "DataQueryable \<Rightarrow> jsval \<Rightarrow> error + jsval" where
  "toArrayCallback q result =
     (if truthy (dq_asArray q) then
        (if length (query_fields (dq_query q)) = 1 then
           (case result of
              JArr rows \<Rightarrow> Inr (JArr (collapse rows))
            | _ \<Rightarrow> Inl (TypeError ''result.forEach is not a function''))
         else Inr result)
      else Inr result)"

section \<open>The execution pipeline\<close>

text \<open>
  What a terminal operation does to its collaborators, in order: the migration of the
  model, the emission of \<^verbatim>\<open>before.execute\<close>, the adapter's \<^verbatim>\<open>execute\<close> with the
  query it receives, a fetch of the mapping extensions, a line on the console, the
  emission of \<^verbatim>\<open>after.execute\<close> with the \<^verbatim>\<open>result\<close> the event carries.
\<close>

datatype call =
    Migrate string
  | EmitBefore
  | Execute QueryExpression
  | Extend extension DataAssociationMapping
  | ConsoleLog
  | EmitAfter jsval

text \<open>
  Modelled from the spec: \<^verbatim>\<open>SequentialEventEmitter.emit\<close> of the package
  @themost/common is not among the sources. The listeners of an event are executed in
  series in registration order, each on the event object the previous one left; the
  first error aborts the rest of the chain.
\<close>

fun emit :: "listener list \<Rightarrow> ExecuteEvent \<Rightarrow> error + ExecuteEvent" where
  "emit [] e = Inr e"
| "emit (l # ls) e = (case l e of Inl err \<Rightarrow> Inl err | Inr e' \<Rightarrow> emit ls e')"

text \<open>
  Modelled from the spec: \<^verbatim>\<open>Array.prototype.distinct\<close> is not among the sources. The
  expand entries are de-duplicated, the first of equal entries kept.
\<close>

fun distinct_acc :: "'a list \<Rightarrow> 'a list \<Rightarrow> 'a list" where
  "distinct_acc res [] = res"
| "distinct_acc res (x # xs) = distinct_acc (if x \<in> set res then res else res @ [x]) xs"

definition distinct_entries :: "'a list \<Rightarrow> 'a list" where
  "distinct_entries xs = distinct_acc [] xs"

text \<open>Writing a property of an object, and lodash \<^verbatim>\<open>_.assign\<close>.\<close>

fun set_prop :: "string \<Rightarrow> jsval \<Rightarrow> (string \<times> jsval) list \<Rightarrow> (string \<times> jsval) list" where
  "set_prop k v [] = [(k, v)]"
| "set_prop k v ((k', v') # rest) =
     (if k' = k then (k, v) # rest else (k', v') # set_prop k v rest)"

definition assign :: "(string \<times> jsval) list \<Rightarrow> (string \<times> jsval) list \<Rightarrow> (string \<times> jsval) list" where
  "assign target source = fold (\<lambda>(k, v). set_prop k v) source target"

text \<open>\<^verbatim>\<open>select.join(",")\<close>.\<close>

fun join_comma :: "string list \<Rightarrow> string" where
  "join_comma [] = []"
| "join_comma [x] = x"
| "join_comma (x # y # ys) = x @ '','' @ join_comma (y # ys)"

text \<open>
  The defaults \<^verbatim>\<open>afterExecute_\<close> adds to the options of an expansion, unless they are a
  DataQueryable: \<^verbatim>\<open>$top\<close> is -1, and \<^verbatim>\<open>$levels\<close> one less than the levels of the
  query when \<^verbatim>\<open>$levels\<close> of the query is a number.
\<close>

definition default_options :: "DataQueryable \<Rightarrow> expand_options \<Rightarrow> expand_options" where
  "default_options q opts =
     (case opts of
        OptionsQueryable \<Rightarrow> OptionsQueryable
      | OptionsObject kvs \<Rightarrow>
          (let k1 = (if map_of kvs ''$top'' \<noteq> None then kvs
                     else set_prop ''$top'' (JNum (- 1)) kvs)
           in OptionsObject
                (if map_of k1 ''$levels'' \<noteq> None then k1
                 else (case dq_levels q of
                         None \<Rightarrow> k1
                       | Some n \<Rightarrow> set_prop ''$levels'' (JNum (getLevels q - 1)) k1))))"

definition with_options :: "expand_options \<Rightarrow> (string \<times> jsval) list \<Rightarrow> expand_options" where
  "with_options opts source =
     (case opts of
        OptionsQueryable \<Rightarrow> OptionsQueryable
      | OptionsObject kvs \<Rightarrow> OptionsObject (assign kvs source))"

text \<open>
  What \<^verbatim>\<open>afterExecute_\<close> decides for one expand entry: nothing more to do for it
  (\<^verbatim>\<open>cb()\<close>), a line on the console and on to the next (\<^verbatim>\<open>cb(null)\<close>), an error
  (\<^verbatim>\<open>cb(e)\<close>, or the error handed straight to the callback of the operation), a fetch
  by the mapping extensions, or no call of \<^verbatim>\<open>cb\<close> at all.
\<close>

datatype plan =
    PlanSkip
  | PlanLog
  | PlanFail error
  | PlanFetch extension DataAssociationMapping expand_options
  | PlanStall

text \<open>
  The fetch for a mapping, by the side of the association the model is on. A mapping of
  type association or junction that names the model on neither side reaches no branch,
  and \<^verbatim>\<open>cb\<close> is never called.
\<close>

definition dispatch :: "DataModel \<Rightarrow> DataAssociationMapping \<Rightarrow> expand_options \<Rightarrow> plan" where
  "dispatch self mapping options =
     (if associationType mapping = Some ''association'' \<or> associationType mapping = Some ''junction''
      then
        (if parentModel mapping = Some (m_name self) \<and> associationType mapping = Some ''association''
         then PlanFetch GetAssociatedChilds mapping options
         else if childModel mapping = Some (m_name self) \<and> associationType mapping = Some ''junction''
         then PlanFetch GetParents mapping options
         else if parentModel mapping = Some (m_name self) \<and> associationType mapping = Some ''junction''
         then PlanFetch GetChilds mapping options
         else if childModel mapping = Some (m_name self) \<and> associationType mapping = Some ''association''
         then PlanFetch GetAssociatedParents mapping options
         else PlanStall)
      else PlanFail (Error ''Not yet implemented''))"

text \<open>
  The search \<^verbatim>\<open>expands.find(...)\<close> for an entry with the parent and child of the
  inferred mapping: a mapping among the entries has them when its four properties are
  equal; a string or a named object has none of the four properties.
\<close>

definition same_mapping :: "DataAssociationMapping \<Rightarrow> expand_entry \<Rightarrow> bool" where
  "same_mapping mapping x =
     (case x of
        ExpandMapping m \<Rightarrow>
          parentField m = parentField mapping \<and> parentModel m = parentModel mapping
          \<and> childField m = childField mapping \<and> childModel m = childModel mapping
      | _ \<Rightarrow>
          parentField mapping = None \<and> parentModel mapping = None
          \<and> childField mapping = None \<and> childModel mapping = None)"

text \<open>
  A string or a named entry: the field it names, by name or property or else by type;
  without a field the mapping stays \<^verbatim>\<open>null\<close>. With a field, its mapping is inferred
  and the search above reads \<^verbatim>\<open>mapping.parentField\<close> before the mapping is tested: an
  inferred mapping that is nil throws there, and the \<^verbatim>\<open>catch\<close> hands the TypeError to
  \<^verbatim>\<open>cb\<close>.
\<close>

definition plan_named :: "DataContext \<Rightarrow> DataModel \<Rightarrow> DataQueryable \<Rightarrow> expand_entry list
    \<Rightarrow> string \<Rightarrow> expand_options option \<Rightarrow> plan" where
  "plan_named ctx self q expands expandAttr opts =
     (let options = (case opts of None \<Rightarrow> OptionsObject [] | Some given \<Rightarrow> given) in
      case (case field self expandAttr of
              Some fld \<Rightarrow> Some fld
            | None \<Rightarrow> find (\<lambda>x. f_type x = expandAttr) (m_attributes self)) of
        None \<Rightarrow> PlanLog
      | Some fld \<Rightarrow>
          (case inferMapping ctx self (f_name fld) of
             Inl e \<Rightarrow> PlanFail e
           | Inr None \<Rightarrow> PlanFail (TypeError ''Cannot read property parentField of null'')
           | Inr (Some mapping) \<Rightarrow>
               (if list_ex (same_mapping mapping) expands then PlanSkip
                else dispatch self
                       (mapping\<lparr>refersTo := Some (or_name (refersTo mapping) (f_name fld))\<rparr>)
                       (default_options q
                          (case mapping_options mapping of
                             Some given \<Rightarrow> with_options options given
                           | None \<Rightarrow>
                               (case mapping_select mapping of
                                  None \<Rightarrow> options
                                | Some sel \<Rightarrow>
                                    if sel = [] then options
                                    else with_options options
                                           [(''$select'', JStr (join_comma sel))]))))))"

text \<open>
  \<^verbatim>\<open>afterExecute_\<close> for one entry. An entry of \<^verbatim>\<open>ExpandValue\<close> is a value that is
  not nil and neither a string, a named object nor a mapping: an invalid expand option.
\<close>

definition plan_entry :: "DataContext \<Rightarrow> DataModel \<Rightarrow> DataQueryable \<Rightarrow> expand_entry list
    \<Rightarrow> expand_entry \<Rightarrow> plan" where
  "plan_entry ctx self q expands entry =
     (case entry of
        ExpandMapping mapping \<Rightarrow>
          dispatch self mapping
            (default_options q
               (OptionsObject
                  (assign (case mapping_select mapping of
                             None \<Rightarrow> []
                           | Some sel \<Rightarrow> [(''$select'', JStr (join_comma sel))])
                          (case mapping_options mapping of None \<Rightarrow> [] | Some given \<Rightarrow> given))))
      | ExpandStr s \<Rightarrow> plan_named ctx self q expands s None
      | ExpandNamed n opts \<Rightarrow> plan_named ctx self q expands n opts
      | ExpandValue v \<Rightarrow>
          PlanFail (Error ''Invalid expand option. Expected string or a named object.''))"

text \<open>
  \<^verbatim>\<open>async.eachSeries\<close> over the entries: one after the other, each fetch on the rows
  the previous one left, stopping at the first error. \<open>NoCallback\<close> stands for an
  operation whose callback is never called.
\<close>

definition NoCallback :: error where
  "NoCallback = Error ''the callback is never called''"

fun run_expands :: "DataContext \<Rightarrow> DataModel \<Rightarrow> DataQueryable \<Rightarrow> expand_entry list
    \<Rightarrow> expand_entry list \<Rightarrow> jsval \<Rightarrow> (error + jsval) \<times> call list" where
  "run_expands ctx self q expands [] result = (Inr result, [])"
| "run_expands ctx self q expands (x # xs) result =
     (case plan_entry ctx self q expands x of
        PlanSkip \<Rightarrow> run_expands ctx self q expands xs result
      | PlanLog \<Rightarrow>
          (case run_expands ctx self q expands xs result of (r, t) \<Rightarrow> (r, ConsoleLog # t))
      | PlanFail e \<Rightarrow> (Inl e, [])
      | PlanStall \<Rightarrow> (Inl NoCallback, [])
      | PlanFetch ext mapping options \<Rightarrow>
          (case c_extend ctx ext mapping options (dq_silent q) result of
             Inl e \<Rightarrow> (Inl e, [Extend ext mapping])
           | Inr result' \<Rightarrow>
               (case run_expands ctx self q expands xs result' of
                  (r, t) \<Rightarrow> (r, Extend ext mapping # t))))"

text \<open>
  \<^verbatim>\<open>afterExecute_\<close>: with an expand list, the distinct entries are processed in series
  and the array collapse follows when none of them failed; without one, the array
  collapse alone.
\<close>

definition afterExecute_fn :: "DataContext \<Rightarrow> DataModel \<Rightarrow> DataQueryable \<Rightarrow> jsval
    \<Rightarrow> (error + jsval) \<times> call list" where
  "afterExecute_fn ctx self q result =
     (case dq_expand q of
        None \<Rightarrow> (toArrayCallback q result, [])
      | Some es \<Rightarrow>
          (case run_expands ctx self q (distinct_entries es) (distinct_entries es) result of
             (Inl e, t) \<Rightarrow> (Inl e, t)
           | (Inr result', t) \<Rightarrow> (toArrayCallback q result', t)))"

text \<open>
  \<^verbatim>\<open>finalExecuteInternal_\<close>. The event starts with the query of the DataQueryable and
  no result. An error of a \<^verbatim>\<open>before.execute\<close> listener ends the operation. A result
  set by a listener takes the place of the adapter's; otherwise the adapter executes the
  query of the event. \<^verbatim>\<open>afterExecute_\<close> follows, and \<^verbatim>\<open>after.execute\<close> is emitted
  when the model has listeners for it: after the adapter with the processed result in
  the event, after a listener's result with the event as the listeners left it. The
  query of the event is the query object of the DataQueryable, so what the listeners
  do to it stays.
\<close>

definition finalExecuteInternal_fn :: "DataContext \<Rightarrow> DataModel \<Rightarrow> DataQueryable
    \<Rightarrow> (error + jsval) \<times> DataQueryable \<times> call list" where
  "finalExecuteInternal_fn ctx self q =
     (let afterListenerCount = length (m_after_execute self) in
      case emit (m_before_execute self) \<lparr>ev_query = dq_query q, ev_result = JUndefined\<rparr> of
        Inl err \<Rightarrow> (Inl err, q, [EmitBefore])
      | Inr e \<Rightarrow>
          (let q1 = q\<lparr>dq_query := ev_query e\<rparr> in
           if ev_result e \<noteq> JUndefined then
             (case afterExecute_fn ctx self q1 (ev_result e) of
                (Inl err, t) \<Rightarrow> (Inl err, q1, EmitBefore # t)
              | (Inr result, t) \<Rightarrow>
                  (if afterListenerCount = 0 then (Inr result, q1, EmitBefore # t)
                   else (case emit (m_after_execute self) e of
                           Inl err \<Rightarrow> (Inl err, q1, EmitBefore # t @ [EmitAfter (ev_result e)])
                         | Inr e2 \<Rightarrow>
                             (Inr result, q1\<lparr>dq_query := ev_query e2\<rparr>,
                              EmitBefore # t @ [EmitAfter (ev_result e)]))))
           else
             (case c_execute ctx (ev_query e) of
                Inl err \<Rightarrow> (Inl err, q1, [EmitBefore, Execute (ev_query e)])
              | Inr raw \<Rightarrow>
                  (case afterExecute_fn ctx self q1 raw of
                     (Inl err, t) \<Rightarrow> (Inl err, q1, EmitBefore # Execute (ev_query e) # t)
                   | (Inr result, t) \<Rightarrow>
                       (if afterListenerCount = 0
                        then (Inr result, q1, EmitBefore # Execute (ev_query e) # t)
                        else (case emit (m_after_execute self) (e\<lparr>ev_result := result\<rparr>) of
                                Inl err \<Rightarrow>
                                  (Inl err, q1,
                                   EmitBefore # Execute (ev_query e) # t @ [EmitAfter result])
                              | Inr e2 \<Rightarrow>
                                  (Inr result, q1\<lparr>dq_query := ev_query e2\<rparr>,
                                   EmitBefore # Execute (ev_query e) # t @ [EmitAfter result])))))))"






text \<open>
  \<^verbatim>\<open>execute_\<close>: migration, expand resolution unless flattened, view merge, and
  \<^verbatim>\<open>finalExecuteInternal_\<close>. The query counts as flattened when \<^verbatim>\<open>$flatten\<close> is
  set or the levels are 0.
\<close>

definition flattened :: "DataQueryable \<Rightarrow> bool" where
  "flattened q = (dq_flatten q = Some True \<or> getLevels q = 0)"


section \<open>Terminal operations\<close>










section \<open>Conditions on queries, models and collaborators\<close>

text \<open>
  What the projection methods leave alone: a DataQueryable \<open>q'\<close> builds on \<open>q\<close> when
  only the projection, the joins, the expand list and the view can differ.
\<close>

definition builds_on :: "DataQueryable \<Rightarrow> DataQueryable \<Rightarrow> bool" where
  "builds_on q q' =
     (q_where (dq_query q') = q_where (dq_query q)
      \<and> q_prepared (dq_query q') = q_prepared (dq_query q)
      \<and> q_left (dq_query q') = q_left (dq_query q)
      \<and> q_order (dq_query q') = q_order (dq_query q)
      \<and> q_group (dq_query q') = q_group (dq_query q)
      \<and> q_skip (dq_query q') = q_skip (dq_query q)
      \<and> q_take (dq_query q') = q_take (dq_query q)
      \<and> dq_flatten q' = dq_flatten q
      \<and> dq_levels q' = dq_levels q
      \<and> dq_asArray q' = dq_asArray q
      \<and> dq_silent q' = dq_silent q)"


text \<open>
  A query that runs without expansion, view and listeners: a projection is chosen, the
  expand list is unset, there is no view, the query is flattened, and the model has no
  listener for \<^verbatim>\<open>before.execute\<close> or \<^verbatim>\<open>after.execute\<close>.
\<close>

definition plain :: "DataModel \<Rightarrow> DataQueryable \<Rightarrow> bool" where
  "plain self q =
     (hasFields (dq_query q) \<and> dq_expand q = None \<and> dq_view q = None \<and> flattened q
      \<and> m_before_execute self = [] \<and> m_after_execute self = [])"













section \<open>Example data\<close>

text \<open>
  \<^verbatim>\<open>qry.query(viewAdapter)\<close>, the expression a fresh DataQueryable starts from, and the
  state the DataQueryable constructor leaves for a model that is not silent.
\<close>

definition emptyQuery :: QueryExpression where
  "emptyQuery =
     \<lparr>q_select = None, q_where = None, q_prepared = None, q_left = None, q_order = None,
      q_group = None, q_skip = None, q_take = None, q_expand = ExpandUndefined\<rparr>"

definition newQueryable :: DataQueryable where
  "newQueryable =
     \<lparr>dq_query = emptyQuery, dq_expand = None, dq_flatten = None, dq_levels = None,
      dq_asArray = JUndefined, dq_silent = JBool False, dq_view = None\<rparr>"

text \<open>A projected field \<^verbatim>\<open>qry.fields.select(name).from(entity)\<close>.\<close>

definition selectField :: "string \<Rightarrow> string \<Rightarrow> QueryField" where
  "selectField n ent = \<lparr>qf_name = Some n, qf_from = Some ent, qf_as = None, qf_aggr = None\<rparr>"

text \<open>
  Two models of the kind the documentation of the engine uses: a Person, and an Order
  whose \<^verbatim>\<open>customer\<close> field is a foreign key to a Person. An Invoice stores the same
  foreign key in the column \<^verbatim>\<open>customerId\<close> and shows it as the property
  \<^verbatim>\<open>customer\<close>.
\<close>

definition plainField :: "string \<Rightarrow> string \<Rightarrow> string \<Rightarrow> DataField" where
  "plainField n t m =
     \<lparr>f_name = n, f_property = None, f_type = t, f_many = Some False, f_mapping = None,
      f_model = m, f_primary = False, f_expandable = False, f_hidden = False\<rparr>"

definition keyField :: "string \<Rightarrow> DataField" where
  "keyField m = (plainField ''id'' ''Integer'' m)\<lparr>f_primary := True\<rparr>"

definition plainModel :: "string \<Rightarrow> DataField list \<Rightarrow> DataModel" where
  "plainModel n fs =
     \<lparr>m_name = n, m_view = None, m_alias = None, m_fields = fs, m_attributes = fs,
      m_superTypes = [], m_configured = True, m_mappings = [],
      m_dataviews = (\<lambda>v. None), m_before_execute = [], m_after_execute = []\<rparr>"

definition personModel :: DataModel where
  "personModel =
     plainModel ''Person'' [keyField ''Person'', plainField ''description'' ''Text'' ''Person'',
                            plainField ''email'' ''Text'' ''Person'']"


definition customerMapping :: "string \<Rightarrow> string \<Rightarrow> DataAssociationMapping" where
  "customerMapping child fld =
     newMapping\<lparr>associationType := Some ''association'', parentModel := Some ''Person'',
                parentField := Some ''id'', childModel := Some child, childField := Some fld,
                cascade := Some ''null''\<rparr>"

definition orderModel :: DataModel where
  "orderModel =
     plainModel ''Order''
       [keyField ''Order'',
        (plainField ''customer'' ''Person'' ''Order'')
           \<lparr>f_mapping := Some (customerMapping ''Order'' ''customer'')\<rparr>,
        plainField ''orderDate'' ''DateTime'' ''Order'']"

definition invoiceModel :: DataModel where
  "invoiceModel =
     plainModel ''Invoice''
       [keyField ''Invoice'',
        (plainField ''customerId'' ''Person'' ''Invoice'')
           \<lparr>f_property := Some ''customer'',
            f_mapping := Some (customerMapping ''Invoice'' ''customerId'')\<rparr>]"

text \<open>
  A context with these models, an adapter that returns the rows it is given whatever the
  query, no migration error, a view filter that adds nothing and mapping extensions
  that leave the rows as they are.
\<close>

definition exampleContext :: "jsval \<Rightarrow> DataContext" where
  "exampleContext rows =
     \<lparr>c_model = (\<lambda>n. if n = ''Person'' then Some personModel
                       else if n = ''Order'' then Some orderModel
                       else if n = ''Invoice'' then Some invoiceModel else None),
      c_dataTypes = (\<lambda>t. t \<in> set [''Integer'', ''Text'', ''DateTime'']),
      c_execute = (\<lambda>qe. Inr rows),
      c_migrate = (\<lambda>n. None),
      c_filter = (\<lambda>n v. Inr emptyQuery),
      c_extend = (\<lambda>ext mp opts sil result. Inr result)\<rparr>"


text \<open>
  Listeners: a cache that answers every query with one stored row, a guard that refuses
  every query, and an audit that only watches. A Person model with the cache and the
  audit, and one with the guard.
\<close>

definition cacheListener :: listener where
  "cacheListener e = Inr (e\<lparr>ev_result := JArr [JObj [(''id'', JNum 1)]]\<rparr>)"

definition guardListener :: listener where
  "guardListener e = Inl (Error ''Access denied'')"

definition auditListener :: listener where
  "auditListener e = Inr e"

definition cachedPerson :: DataModel where
  "cachedPerson = personModel\<lparr>m_before_execute := [auditListener, cacheListener],
                              m_after_execute := [auditListener]\<rparr>"

definition guardedPerson :: DataModel where
  "guardedPerson = personModel\<lparr>m_before_execute := [auditListener, guardListener, cacheListener]\<rparr>"

text \<open>\<^verbatim>\<open>select('id')\<close> on a fresh DataQueryable of a model with the given view.\<close>

definition selectId :: "string \<Rightarrow> DataQueryable" where
  "selectId ent = newQueryable\<lparr>dq_query := emptyQuery\<lparr>q_select := Some [selectField ''id'' ent]\<rparr>\<rparr>"



text \<open>A row keeps its place in the collapsed array when it is not nil and the value
  under its first key is truthy; \<open>first_value\<close> is that value.\<close>

definition kept :: "jsval \<Rightarrow> bool" where
  "kept x = (\<not> isNil x \<and> (case first_key x of None \<Rightarrow> False | Some k \<Rightarrow> truthy (get_prop x k)))"

definition first_value :: "jsval \<Rightarrow> jsval" where
  "first_value x = (case first_key x of None \<Rightarrow> JUndefined | Some k \<Rightarrow> get_prop x k)"

section \<open>Flatten and levels\<close>







section \<open>Array collapse\<close>


lemma collapse_filter: "collapse rows = map first_value (filter kept rows)"
  by (induction rows) (auto simp: kept_def first_value_def split: option.splits)

text \<open>
  C7, the claim as the specification states it: with one projected field the collapsed
  array has the length of the raw rows. It has not: a row whose single value is 0 is
  dropped.
\<close>

theorem C7_collapse_drops_falsy_rows:
  "query_fields (emptyQuery\<lparr>q_select := Some [selectField ''id'' ''OrderData'']\<rparr>)
     = [selectField ''id'' ''OrderData'']
   \<and> toArrayCallback
        (newQueryable\<lparr>dq_query := emptyQuery\<lparr>q_select := Some [selectField ''id'' ''OrderData'']\<rparr>,
                      dq_asArray := JBool True\<rparr>)
        (JArr [JObj [(''id'', JNum 0)], JObj [(''id'', JNum 7)]])
     = Inr (JArr [JNum 7])"
  by (simp add: toArrayCallback_def query_fields_def emptyQuery_def newQueryable_def
      first_key_def get_prop_def)

text \<open>
  C7, amended. With \<^verbatim>\<open>$asArray\<close> set and exactly one field in the projection, the
  result is the array of the values under the first key of every row that is not nil and
  whose first value is truthy, in order: rows that are nil or whose first value is falsy
  are dropped, so the array is at most as long as the raw rows, and as long when every
  row is kept. With any other number of fields, or without \<^verbatim>\<open>$asArray\<close>, the result
  is handed on unchanged.
\<close>

theorem C7_array_collapse:
  "(truthy (dq_asArray q) \<and> length (query_fields (dq_query q)) = 1 \<longrightarrow>
      toArrayCallback q (JArr rows) = Inr (JArr (map first_value (filter kept rows)))
      \<and> length (map first_value (filter kept rows)) \<le> length rows
      \<and> ((\<forall>x \<in> set rows. kept x) \<longrightarrow>
           toArrayCallback q (JArr rows) = Inr (JArr (map first_value rows))))
   \<and> (length (query_fields (dq_query q)) \<noteq> 1 \<or> \<not> truthy (dq_asArray q) \<longrightarrow>
        toArrayCallback q result = Inr result)"
proof -
  have all: "(\<forall>x \<in> set rows. kept x) \<Longrightarrow> filter kept rows = rows"
    by (induction rows) auto
  show ?thesis
    using all by (auto simp: toArrayCallback_def collapse_filter)
qed

theorem C7_array_collapse_witness:
  "toArrayCallback
      (newQueryable\<lparr>dq_query := emptyQuery\<lparr>q_select := Some [selectField ''name'' ''PersonData'']\<rparr>,
                    dq_asArray := JBool True\<rparr>)
      (JArr [JObj [(''name'', JStr ''Ann'')], JNull, JObj [(''name'', JStr [])],
             JObj [(''name'', JStr ''Bob'')]])
     = Inr (JArr [JStr ''Ann'', JStr ''Bob''])
   \<and> toArrayCallback
        (newQueryable\<lparr>dq_query := emptyQuery\<lparr>q_select := Some [selectField ''id'' ''PersonData'',
                                                                 selectField ''name'' ''PersonData'']\<rparr>,
                      dq_asArray := JBool True\<rparr>)
        (JArr [JObj [(''id'', JNum 1), (''name'', JStr ''Ann'')]])
     = Inr (JArr [JObj [(''id'', JNum 1), (''name'', JStr ''Ann'')]])"
proof -
  let ?q1 = "newQueryable\<lparr>dq_query := emptyQuery\<lparr>q_select := Some [selectField ''name'' ''PersonData'']\<rparr>,
                    dq_asArray := JBool True\<rparr>"
  let ?q2 = "newQueryable\<lparr>dq_query := emptyQuery\<lparr>q_select := Some [selectField ''id'' ''PersonData'',
                                                                 selectField ''name'' ''PersonData'']\<rparr>,
                      dq_asArray := JBool True\<rparr>"
  have f1: "truthy (dq_asArray ?q1) \<and> length (query_fields (dq_query ?q1)) = 1"
    by (simp add: query_fields_def emptyQuery_def newQueryable_def)
  have f2: "length (query_fields (dq_query ?q2)) \<noteq> 1"
    by (simp add: query_fields_def emptyQuery_def newQueryable_def)
  have k: "map first_value (filter kept [JObj [(''name'', JStr ''Ann'')], JNull,
             JObj [(''name'', JStr [])], JObj [(''name'', JStr ''Bob'')]])
           = [JStr ''Ann'', JStr ''Bob'']"
    by (simp add: kept_def first_value_def first_key_def get_prop_def)
  show ?thesis
    using C7_array_collapse [of ?q1 "[JObj [(''name'', JStr ''Ann'')], JNull,
             JObj [(''name'', JStr [])], JObj [(''name'', JStr ''Bob'')]]" JNull]
      C7_array_collapse [of ?q2 "[]" "JArr [JObj [(''id'', JNum 1), (''name'', JStr ''Ann'')]]"]
      f1 f2 k
    by simp
qed

section \<open>Nested attributes and their joins\<close>







lemma push_joins_new: "\<not> list_ex (same_alias j) ex \<Longrightarrow> push_joins ex [j] = ex @ [j]"
  by simp

lemma push_joins_old: "list_ex (same_alias j) ex \<Longrightarrow> push_joins ex [j] = ex"
  by simp




lemmas example_defs = exampleContext_def personModel_def orderModel_def invoiceModel_def
  plainModel_def plainField_def keyField_def customerMapping_def newMapping_def
  newQueryable_def emptyQuery_def selectField_def selectId_def
  cachedPerson_def guardedPerson_def cacheListener_def guardListener_def auditListener_def





section \<open>Listeners and the adapter\<close>

lemmas pipeline_defs = finalExecuteInternal_fn_def afterExecute_fn_def toArrayCallback_def
  plan_entry_def plan_named_def dispatch_def default_options_def with_options_def
  same_mapping_def distinct_entries_def assign_def or_name_def
  inferMapping_def inferDeclaredMapping_def inferTypeMapping_def inferTagMapping_def
  field_def Let_def

lemma run_expands_no_execute:
  "run_expands ctx self q expands xs result = (r, t) \<Longrightarrow> Execute qe \<notin> set t"
proof (induction xs arbitrary: result r t)
  case Nil
  then show ?case by simp
next
  case (Cons x xs)
  show ?case
  proof (cases "plan_entry ctx self q expands x")
    case PlanSkip
    then show ?thesis using Cons by simp
  next
    case PlanLog
    obtain r' t' where rt: "run_expands ctx self q expands xs result = (r', t')"
      by (cases "run_expands ctx self q expands xs result")
    then show ?thesis using Cons.IH [OF rt] Cons.prems PlanLog by auto
  next
    case (PlanFail e)
    then show ?thesis using Cons.prems by auto
  next
    case (PlanFetch ext mapping options)
    show ?thesis
    proof (cases "c_extend ctx ext mapping options (dq_silent q) result")
      case (Inl e)
      then show ?thesis using Cons.prems PlanFetch by auto
    next
      case (Inr result')
      obtain r' t' where rt: "run_expands ctx self q expands xs result' = (r', t')"
        by (cases "run_expands ctx self q expands xs result'")
      then show ?thesis using Cons.IH [OF rt] Cons.prems PlanFetch Inr by auto
    qed
  next
    case PlanStall
    then show ?thesis using Cons.prems by auto
  qed
qed

lemma afterExecute_no_execute:
  "afterExecute_fn ctx self q result = (r, t) \<Longrightarrow> Execute qe \<notin> set t"
  by (auto simp: afterExecute_fn_def split: option.splits sum.splits prod.splits
      dest: run_expands_no_execute)

lemma emit_append:
  "emit ls1 e0 = Inr e1 \<Longrightarrow> emit (ls1 @ ls2) e0 = emit ls2 e1"
  by (induction ls1 arbitrary: e0) (auto split: sum.splits)

lemma emit_error:
  "emit ls1 e0 = Inr e1 \<Longrightarrow> l e1 = Inl err \<Longrightarrow> emit (ls1 @ l # ls2) e0 = Inl err"
  by (simp add: emit_append)

text \<open>
  C4. When the emission of \<^verbatim>\<open>before.execute\<close> leaves a \<^verbatim>\<open>result\<close> on the event, the
  adapter's \<^verbatim>\<open>execute\<close> is not called, and the result of the listeners is what
  \<^verbatim>\<open>afterExecute_\<close> processes (expansion and array collapse): its error is the error
  of the operation; its result is the result of the operation, handed over at once when
  the model has no \<^verbatim>\<open>after.execute\<close> listener, and after the emission of
  \<^verbatim>\<open>after.execute\<close> on the event with the listeners' result otherwise. When a
  \<^verbatim>\<open>before.execute\<close> listener yields an error, the operation fails with exactly that
  error, and nothing but the emission has happened.
\<close>

theorem C4_before_execute_short_circuit:
  "(emit (m_before_execute self) \<lparr>ev_query = dq_query q, ev_result = JUndefined\<rparr> = Inr e
      \<and> ev_result e \<noteq> JUndefined \<longrightarrow>
      (\<forall>qe. Execute qe \<notin> set (snd (snd (finalExecuteInternal_fn ctx self q))))
      \<and> (case afterExecute_fn ctx self (q\<lparr>dq_query := ev_query e\<rparr>) (ev_result e) of
            (Inl err, t) \<Rightarrow>
               fst (finalExecuteInternal_fn ctx self q) = Inl err
               \<and> snd (snd (finalExecuteInternal_fn ctx self q)) = EmitBefore # t
          | (Inr result, t) \<Rightarrow>
               (m_after_execute self = [] \<longrightarrow>
                  fst (finalExecuteInternal_fn ctx self q) = Inr result
                  \<and> snd (snd (finalExecuteInternal_fn ctx self q)) = EmitBefore # t)
               \<and> (m_after_execute self \<noteq> [] \<longrightarrow>
                  fst (finalExecuteInternal_fn ctx self q)
                    = (case emit (m_after_execute self) e of
                         Inl err \<Rightarrow> Inl err
                       | Inr e2 \<Rightarrow> Inr result)
                  \<and> snd (snd (finalExecuteInternal_fn ctx self q))
                    = EmitBefore # t @ [EmitAfter (ev_result e)])))
   \<and> (m_before_execute self = ls1 @ l # ls2
        \<and> emit ls1 \<lparr>ev_query = dq_query q, ev_result = JUndefined\<rparr> = Inr e1
        \<and> l e1 = Inl err \<longrightarrow>
        finalExecuteInternal_fn ctx self q = (Inl err, q, [EmitBefore]))"
proof (intro conjI impI)
  assume a: "emit (m_before_execute self) \<lparr>ev_query = dq_query q, ev_result = JUndefined\<rparr> = Inr e
      \<and> ev_result e \<noteq> JUndefined"
  obtain r t where ae: "afterExecute_fn ctx self (q\<lparr>dq_query := ev_query e\<rparr>) (ev_result e) = (r, t)"
    by (cases "afterExecute_fn ctx self (q\<lparr>dq_query := ev_query e\<rparr>) (ev_result e)")
  have nt: "\<And>qe. Execute qe \<notin> set t"
    using afterExecute_no_execute [OF ae] by simp
  show "\<forall>qe. Execute qe \<notin> set (snd (snd (finalExecuteInternal_fn ctx self q)))"
    using a ae nt
    by (auto simp: finalExecuteInternal_fn_def Let_def split: sum.splits)
  show "case afterExecute_fn ctx self (q\<lparr>dq_query := ev_query e\<rparr>) (ev_result e) of
            (Inl err, t) \<Rightarrow>
               fst (finalExecuteInternal_fn ctx self q) = Inl err
               \<and> snd (snd (finalExecuteInternal_fn ctx self q)) = EmitBefore # t
          | (Inr result, t) \<Rightarrow>
               (m_after_execute self = [] \<longrightarrow>
                  fst (finalExecuteInternal_fn ctx self q) = Inr result
                  \<and> snd (snd (finalExecuteInternal_fn ctx self q)) = EmitBefore # t)
               \<and> (m_after_execute self \<noteq> [] \<longrightarrow>
                  fst (finalExecuteInternal_fn ctx self q)
                    = (case emit (m_after_execute self) e of
                         Inl err \<Rightarrow> Inl err
                       | Inr e2 \<Rightarrow> Inr result)
                  \<and> snd (snd (finalExecuteInternal_fn ctx self q))
                    = EmitBefore # t @ [EmitAfter (ev_result e)])"
    using a ae
    by (auto simp: finalExecuteInternal_fn_def Let_def split: sum.splits)
next
  assume b: "m_before_execute self = ls1 @ l # ls2
        \<and> emit ls1 \<lparr>ev_query = dq_query q, ev_result = JUndefined\<rparr> = Inr e1
        \<and> l e1 = Inl err"
  then have "emit (m_before_execute self) \<lparr>ev_query = dq_query q, ev_result = JUndefined\<rparr> = Inl err"
    using emit_error [of ls1 _ e1 l err ls2] by simp
  then show "finalExecuteInternal_fn ctx self q = (Inl err, q, [EmitBefore])"
    by (simp add: finalExecuteInternal_fn_def Let_def)
qed

theorem C4_before_execute_short_circuit_witness:
  "fst (finalExecuteInternal_fn (exampleContext (JArr [])) cachedPerson (selectId ''PersonData''))
     = Inr (JArr [JObj [(''id'', JNum 1)]])
   \<and> snd (snd (finalExecuteInternal_fn (exampleContext (JArr [])) cachedPerson
                  (selectId ''PersonData'')))
     = [EmitBefore, EmitAfter (JArr [JObj [(''id'', JNum 1)]])]
   \<and> finalExecuteInternal_fn (exampleContext (JArr [])) guardedPerson (selectId ''PersonData'')
     = (Inl (Error ''Access denied''), selectId ''PersonData'', [EmitBefore])"
proof -
  let ?ctx = "exampleContext (JArr [])"
  let ?q = "selectId ''PersonData''"
  let ?start = "\<lparr>ev_query = dq_query ?q, ev_result = JUndefined\<rparr>"
  let ?e = "\<lparr>ev_query = dq_query ?q, ev_result = JArr [JObj [(''id'', JNum 1)]]\<rparr>"
  have b: "emit (m_before_execute cachedPerson) ?start = Inr ?e \<and> ev_result ?e \<noteq> JUndefined"
    by (simp add: example_defs)
  have a: "afterExecute_fn ?ctx cachedPerson (?q\<lparr>dq_query := ev_query ?e\<rparr>) (ev_result ?e)
             = (Inr (JArr [JObj [(''id'', JNum 1)]]), [])"
    by (simp add: example_defs pipeline_defs)
  have n: "m_after_execute cachedPerson \<noteq> []"
    "emit (m_after_execute cachedPerson) ?e = Inr ?e"
    by (simp_all add: example_defs)
  have g: "m_before_execute guardedPerson = [auditListener] @ guardListener # [cacheListener]
     \<and> emit [auditListener] ?start = Inr ?start
     \<and> guardListener ?start = Inl (Error ''Access denied'')"
    by (simp add: example_defs)
  have "case afterExecute_fn ?ctx cachedPerson (?q\<lparr>dq_query := ev_query ?e\<rparr>) (ev_result ?e) of
            (Inl err, t) \<Rightarrow>
               fst (finalExecuteInternal_fn ?ctx cachedPerson ?q) = Inl err
               \<and> snd (snd (finalExecuteInternal_fn ?ctx cachedPerson ?q)) = EmitBefore # t
          | (Inr result, t) \<Rightarrow>
               (m_after_execute cachedPerson = [] \<longrightarrow>
                  fst (finalExecuteInternal_fn ?ctx cachedPerson ?q) = Inr result
                  \<and> snd (snd (finalExecuteInternal_fn ?ctx cachedPerson ?q)) = EmitBefore # t)
               \<and> (m_after_execute cachedPerson \<noteq> [] \<longrightarrow>
                  fst (finalExecuteInternal_fn ?ctx cachedPerson ?q)
                    = (case emit (m_after_execute cachedPerson) ?e of
                         Inl err \<Rightarrow> Inl err
                       | Inr e2 \<Rightarrow> Inr result)
                  \<and> snd (snd (finalExecuteInternal_fn ?ctx cachedPerson ?q))
                    = EmitBefore # t @ [EmitAfter (ev_result ?e)])"
    using C4_before_execute_short_circuit
      [where ctx = ?ctx, THEN conjunct1, rule_format, OF b, THEN conjunct2] .
  then have one: "fst (finalExecuteInternal_fn ?ctx cachedPerson ?q)
       = Inr (JArr [JObj [(''id'', JNum 1)]])
     \<and> snd (snd (finalExecuteInternal_fn ?ctx cachedPerson ?q))
       = [EmitBefore, EmitAfter (JArr [JObj [(''id'', JNum 1)]])]"
    unfolding a using n by simp
  have two: "finalExecuteInternal_fn ?ctx guardedPerson ?q
     = (Inl (Error ''Access denied''), ?q, [EmitBefore])"
    using C4_before_execute_short_circuit
      [where ctx = ?ctx, THEN conjunct2, rule_format, OF g] .
  show ?thesis using one two by simp
qed

text \<open>
  C5. The Order model has a field \<^verbatim>\<open>orderDate\<close> of a primitive type, for which
  \<^verbatim>\<open>inferMapping\<close> yields no mapping. With \<^verbatim>\<open>orderDate\<close> on the expand list the
  operation fails with a TypeError and the entry \<^verbatim>\<open>customer\<close> after it is never
  fetched; an entry that names no field at all is logged and skipped, and \<^verbatim>\<open>customer\<close>
  is fetched after it.
\<close>

theorem C5_unresolved_mapping_aborts:
  "inferMapping (exampleContext JNull) orderModel ''orderDate'' = Inr None
   \<and> afterExecute_fn (exampleContext JNull) orderModel
        ((selectId ''OrderData'')\<lparr>dq_expand := Some [ExpandStr ''orderDate'', ExpandStr ''customer'']\<rparr>)
        (JArr [JObj [(''id'', JNum 1)]])
     = (Inl (TypeError ''Cannot read property parentField of null''), [])
   \<and> afterExecute_fn (exampleContext JNull) orderModel
        ((selectId ''OrderData'')\<lparr>dq_expand := Some [ExpandStr ''nothing'', ExpandStr ''customer'']\<rparr>)
        (JArr [JObj [(''id'', JNum 1)]])
     = (Inr (JArr [JObj [(''id'', JNum 1)]]),
        [ConsoleLog,
         Extend GetAssociatedParents
           ((customerMapping ''Order'' ''customer'')\<lparr>refersTo := Some ''customer''\<rparr>)])"
  by (simp add: example_defs pipeline_defs)

section \<open>What projection leaves alone\<close>

lemma builds_on_refl [simp]: "builds_on q q"
  by (simp add: builds_on_def)


















section \<open>What the pipeline hands to the adapter\<close>









section \<open>The first row\<close>



lemma plain_paging:
  "plain self q \<Longrightarrow> plain self (take_n n (skip k q))"
  by (auto simp: plain_def take_n_def skip_def hasFields_def flattened_def getLevels_def
      split: option.splits)





section \<open>Counting\<close>











section \<open>The value of the first row\<close>















section \<open>Result sets\<close>









end
